theory Spec2Isabelle
  imports Main "HOL-Library.Sublist"
begin

section \<open>Row model\<close>

text \<open>
  A Go \<^verbatim>\<open>interface{}\<close> column value. The kinds that matter to the row model are a
  string, a \<^verbatim>\<open>[]string\<close> and a nested \<^verbatim>\<open>map[string]interface{}\<close>; \<open>INil\<close> is the nil
  interface, and \<open>IInt\<close>, \<open>IBool\<close> stand for the kinds the conversion does not know.
\<close>

datatype iface =
    IString string
  | IStringList "string list"
  | IMap "(string \<times> iface) list"
  | INil
  | IInt int
  | IBool bool

text \<open>
  The storage representation, \<^verbatim>\<open>types.AttributeValue\<close>: the members this package builds
  (\<^verbatim>\<open>S\<close>, \<^verbatim>\<open>SS\<close>, \<^verbatim>\<open>M\<close>). The interface value may be nil; inside an \<^verbatim>\<open>M\<close> map that is
  \<open>None\<close>.
\<close>

datatype attr =
    AvS string
  | AvSS "string list"
  | AvM "(string \<times> attr option) list"

type_synonym item = "(string \<times> attr) list"

type_synonym columns = "(string \<times> iface) list"

text \<open>The struct \<^verbatim>\<open>row\<close>; a nil \<^verbatim>\<open>RowColumns\<close> map is \<open>None\<close>.\<close>

record row =
  RowType :: string
  RowID :: string
  RowLabel :: string
  RowParentID :: string
  RowColumns :: "columns option"

text \<open>
  The package's error values, \<^verbatim>\<open>fmt.Errorf\<close> with \<^verbatim>\<open>%w\<close> as \<open>ErrWrap\<close> (the wrapped
  error and the formatted arguments), and what the datastore client can hand back:
  an error of the service, a failed condition check, a value it cannot decode, and a
  request it cannot serialize.
\<close>

datatype error =
    ErrCannotDeleteRow
  | ErrCollisionParentLabel
  | ErrCollisionTypeLabel
  | ErrNilQueryOutput
  | ErrNotFoundRow
  | ErrTooManyFound
  | ErrWrap error "string list"
  | ErrBackend string
  | ErrConditionalCheckFailed
  | ErrUnmarshalType string
  | ErrNilDereference
  | ErrSerialization

fun errors_Is :: "error \<Rightarrow> error \<Rightarrow> bool" where
  "errors_Is (ErrWrap e args) target = (ErrWrap e args = target \<or> errors_Is e target)"
| "errors_Is e target = (e = target)"

definition storageKeyType :: string where "storageKeyType = ''type''"
definition storageKeyID :: string where "storageKeyID = ''id''"
definition storageAttrParentID :: string where "storageAttrParentID = ''parent_id''"
definition storageAttrLabel :: string where "storageAttrLabel = ''label''"
definition storageAttrColumns :: string where "storageAttrColumns = ''columns''"
definition storageGSIByParentAndLabel :: string where
  "storageGSIByParentAndLabel = ''ByParentAndLabel''"
definition storageGSIByType :: string where "storageGSIByType = ''ByType''"
definition storageLSIByTypeAndLabel :: string where
  "storageLSIByTypeAndLabel = ''ByTypeAndLabel''"
definition storageLSIByTypeAndParent :: string where
  "storageLSIByTypeAndParent = ''ByTypeAndParent''"

subsection \<open>From the storage representation to a row\<close>

text \<open>
  \<^verbatim>\<open>attributevalue.UnmarshalMap\<close> belongs to the datastore client library. What it does
  on the three members above: \<^verbatim>\<open>S\<close> decodes into a string, \<^verbatim>\<open>SS\<close> into a
  \<^verbatim>\<open>[]string\<close>, \<^verbatim>\<open>M\<close> into a \<^verbatim>\<open>map[string]interface{}\<close>; a missing attribute leaves
  the field's zero value; a member of the wrong shape for a field is a type error.
\<close>

fun attrToIface :: "attr \<Rightarrow> iface"
  and attrsToIfaces :: "(string \<times> attr option) list \<Rightarrow> columns" where
  "attrToIface (AvS s) = IString s"
| "attrToIface (AvSS l) = IStringList l"
| "attrToIface (AvM m) = IMap (attrsToIfaces m)"
| "attrsToIfaces [] = []"
| "attrsToIfaces ((k, None) # m) = (k, INil) # attrsToIfaces m"
| "attrsToIfaces ((k, Some a) # m) = (k, attrToIface a) # attrsToIfaces m"

definition stringField :: "item \<Rightarrow> string \<Rightarrow> error + string" where
  "stringField it k =
     (case map_of it k of
        None \<Rightarrow> Inr ''''
      | Some (AvS s) \<Rightarrow> Inr s
      | Some _ \<Rightarrow> Inl (ErrUnmarshalType k))"

definition columnsField :: "item \<Rightarrow> string \<Rightarrow> error + columns option" where
  "columnsField it k =
     (case map_of it k of
        None \<Rightarrow> Inr None
      | Some (AvM m) \<Rightarrow> Inr (Some (attrsToIfaces m))
      | Some _ \<Rightarrow> Inl (ErrUnmarshalType k))"

definition itemToRow :: "item \<Rightarrow> error + row" where
  "itemToRow it =
     (case stringField it ''type'' of Inl e \<Rightarrow> Inl e | Inr t \<Rightarrow>
     (case stringField it ''id'' of Inl e \<Rightarrow> Inl e | Inr i \<Rightarrow>
     (case stringField it ''label'' of Inl e \<Rightarrow> Inl e | Inr l \<Rightarrow>
     (case stringField it ''parent_id'' of Inl e \<Rightarrow> Inl e | Inr p \<Rightarrow>
     (case columnsField it ''columns'' of Inl e \<Rightarrow> Inl e | Inr c \<Rightarrow>
        Inr \<lparr>RowType = t, RowID = i, RowLabel = l, RowParentID = p, RowColumns = c\<rparr>)))))"

subsection \<open>From column values to the storage representation\<close>

text \<open>
  \<^verbatim>\<open>out\<close> starts as the nil interface and is assigned only by the two type assertions
  that succeed on a string and on a \<^verbatim>\<open>[]string\<close>.
\<close>

fun ifaceToAttributeValue :: "iface \<Rightarrow> attr option" where
  "ifaceToAttributeValue (IString vString) = Some (AvS vString)"
| "ifaceToAttributeValue (IStringList vStringList) = Some (AvSS vStringList)"
| "ifaceToAttributeValue _ = None"

text \<open>Ranging over a nil map runs the body zero times: the result is the empty map.\<close>

definition columnsToMap :: "columns option \<Rightarrow> (string \<times> attr option) list" where
  "columnsToMap cols =
     (case cols of
        None \<Rightarrow> []
      | Some kvs \<Rightarrow> map (\<lambda>(k, v). (k, ifaceToAttributeValue v)) kvs)"

section \<open>Identifier generator\<close>

text \<open>
  The process state the store works in: the table's items, what the datastore will
  answer to the coming requests, and the global random source of \<^verbatim>\<open>math/rand\<close> (the
  sequence of \<^verbatim>\<open>Int63\<close> draws and how many have been taken).
\<close>

datatype fault = NoFault | BackendError string | NilOutput

record world =
  items :: "item list"
  faults :: "fault list"
  rand_src :: "nat \<Rightarrow> nat"
  rand_pos :: nat

definition letters :: string where
  "letters = ''abcdefghijklmnopqrstuvwxyz''"

definition randSeq :: "world \<Rightarrow> nat \<Rightarrow> string \<times> world" where
  "randSeq w n =
     (map (\<lambda>i. letters ! (rand_src w (rand_pos w + i) mod length letters)) [0..<n],
      w\<lparr>rand_pos := rand_pos w + n\<rparr>)"

definition Generate :: "world \<Rightarrow> string \<Rightarrow> string \<times> world" where
  "Generate w pfx = (case randSeq w 10 of (sfx, w') \<Rightarrow> (pfx @ ''_'' @ sfx, w'))"

section \<open>The datastore\<close>

text \<open>
  The keyed table the client talks to is an external service. Its documented behaviour,
  as far as this package relies on it: one table whose primary key is
  \<open>(type, id)\<close>; a secondary index holds the items that carry all of the index's key
  attributes as strings, with every attribute projected; a condition expression is
  evaluated against the item stored under the request's key (no attribute exists when
  there is none); an update whose condition holds on a missing item creates the item from
  the key and the assignments. Reads see all earlier writes and a query answers in one
  page, in table order. Any request may instead be answered by an error of the service or
  the transport (\<open>BackendError\<close>), or by a nil output (\<open>NilOutput\<close>), as the next entry of
  \<open>faults\<close> says; an empty schedule is a datastore that answers every request.

  The client library serializes a request before it sends it. An attribute value that is
  nil cannot be serialized: when an \<^verbatim>\<open>M\<close> map of the request holds one, the call fails
  with a serialization error, no request reaches the service and nothing is written.
\<close>

fun serializable :: "attr \<Rightarrow> bool"
  and serializable_members :: "(string \<times> attr option) list \<Rightarrow> bool" where
  "serializable (AvS s) = True"
| "serializable (AvSS l) = True"
| "serializable (AvM m) = serializable_members m"
| "serializable_members [] = True"
| "serializable_members ((k, None) # m) = False"
| "serializable_members ((k, Some a) # m) = (serializable a \<and> serializable_members m)"

definition serializable_attrs :: "(string \<times> attr) list \<Rightarrow> bool" where
  "serializable_attrs kvs = list_all (\<lambda>kv. serializable (snd kv)) kvs"

definition next_fault :: "world \<Rightarrow> fault \<times> world" where
  "next_fault w =
     (case faults w of
        [] \<Rightarrow> (NoFault, w)
      | f # fs \<Rightarrow> (f, w\<lparr>faults := fs\<rparr>))"

definition has_key :: "string \<Rightarrow> string \<Rightarrow> item \<Rightarrow> bool" where
  "has_key ty i it \<longleftrightarrow> map_of it ''type'' = Some (AvS ty) \<and> map_of it ''id'' = Some (AvS i)"

definition lookup_item :: "item list \<Rightarrow> string \<Rightarrow> string \<Rightarrow> item option" where
  "lookup_item tbl ty i = find (has_key ty i) tbl"

datatype cond =
    AttributeExists string
  | AttributeNotExists string
  | CondAnd cond cond

fun eval_cond :: "cond \<Rightarrow> item option \<Rightarrow> bool" where
  "eval_cond (AttributeExists a) None = False"
| "eval_cond (AttributeExists a) (Some it) = (map_of it a \<noteq> None)"
| "eval_cond (AttributeNotExists a) None = True"
| "eval_cond (AttributeNotExists a) (Some it) = (map_of it a = None)"
| "eval_cond (CondAnd c d) x = (eval_cond c x \<and> eval_cond d x)"

datatype filter_expr = Contains string string | Equals string string

record query_input =
  IndexName :: string
  KeyConditions :: "(string \<times> string) list"
  FilterExpression :: "filter_expr list"

definition index_keys :: "string \<Rightarrow> string list option" where
  "index_keys name =
     (if name = ''ByParentAndLabel'' then Some [''parent_id'', ''label'']
      else if name = ''ByType'' then Some [''type'']
      else if name = ''ByTypeAndLabel'' then Some [''type'', ''label'']
      else if name = ''ByTypeAndParent'' then Some [''type'', ''parent_id'']
      else None)"

fun is_S :: "attr option \<Rightarrow> bool" where
  "is_S (Some (AvS s)) = True"
| "is_S _ = False"

definition in_index :: "string list \<Rightarrow> item \<Rightarrow> bool" where
  "in_index ks it = list_all (\<lambda>k. is_S (map_of it k)) ks"

definition key_match :: "item \<Rightarrow> string \<times> string \<Rightarrow> bool" where
  "key_match it kv = (map_of it (fst kv) = Some (AvS (snd kv)))"

fun filter_match :: "item \<Rightarrow> filter_expr \<Rightarrow> bool" where
  "filter_match it (Contains k v) =
     (case map_of it k of
        Some (AvS s) \<Rightarrow> sublist v s
      | Some (AvSS l) \<Rightarrow> v \<in> set l
      | _ \<Rightarrow> False)"
| "filter_match it (Equals k v) = (map_of it k = Some (AvS v))"

definition query_items :: "item list \<Rightarrow> query_input \<Rightarrow> string list \<Rightarrow> item list" where
  "query_items tbl q ks =
     filter (\<lambda>it. in_index ks it \<and> list_all (key_match it) (KeyConditions q)
                  \<and> list_all (filter_match it) (FilterExpression q)) tbl"

text \<open>\<open>Inr None\<close> is an output that is nil or whose \<^verbatim>\<open>Items\<close> is nil.\<close>

definition ddb_Query :: "world \<Rightarrow> query_input \<Rightarrow> (error + item list option) \<times> world" where
  "ddb_Query w q =
     (case next_fault w of
        (BackendError m, w') \<Rightarrow> (Inl (ErrBackend m), w')
      | (NilOutput, w') \<Rightarrow> (Inr None, w')
      | (NoFault, w') \<Rightarrow>
          (case index_keys (IndexName q) of
             None \<Rightarrow> (Inl (ErrBackend ''ValidationException''), w')
           | Some ks \<Rightarrow> (Inr (Some (query_items (items w') q ks)), w')))"

text \<open>\<open>Inr None\<close> is a nil output; \<open>Inr (Some None)\<close> an output whose \<^verbatim>\<open>Item\<close> is nil.\<close>

definition ddb_GetItem ::
  "world \<Rightarrow> string \<Rightarrow> string \<Rightarrow> (error + item option option) \<times> world" where
  "ddb_GetItem w ty i =
     (case next_fault w of
        (BackendError m, w') \<Rightarrow> (Inl (ErrBackend m), w')
      | (NilOutput, w') \<Rightarrow> (Inr None, w')
      | (NoFault, w') \<Rightarrow> (Inr (Some (lookup_item (items w') ty i)), w'))"

definition item_key :: "item \<Rightarrow> (string \<times> string) option" where
  "item_key it =
     (case (map_of it ''type'', map_of it ''id'') of
        (Some (AvS ty), Some (AvS i)) \<Rightarrow> Some (ty, i)
      | _ \<Rightarrow> None)"

definition store_item :: "item list \<Rightarrow> string \<Rightarrow> string \<Rightarrow> item \<Rightarrow> item list" where
  "store_item tbl ty i it =
     (if list_ex (has_key ty i) tbl
      then map (\<lambda>old. if has_key ty i old then it else old) tbl
      else tbl @ [it])"

text \<open>The client discards the output of a put and of a delete: only the error is kept.\<close>

definition ddb_PutItem :: "world \<Rightarrow> item \<Rightarrow> cond \<Rightarrow> error option \<times> world" where
  "ddb_PutItem w it c =
     (if \<not> serializable_attrs it then (Some ErrSerialization, w)
      else
        (case next_fault w of
           (BackendError m, w') \<Rightarrow> (Some (ErrBackend m), w')
         | (_, w') \<Rightarrow>
             (case item_key it of
                None \<Rightarrow> (Some (ErrBackend ''ValidationException''), w')
              | Some (ty, i) \<Rightarrow>
                  if eval_cond c (lookup_item (items w') ty i)
                  then (None, w'\<lparr>items := store_item (items w') ty i it\<rparr>)
                  else (Some ErrConditionalCheckFailed, w'))))"

fun set_attrs :: "item \<Rightarrow> (string \<times> attr) list \<Rightarrow> item" where
  "set_attrs it [] = it"
| "set_attrs it ((k, v) # kvs) =
     set_attrs (if k \<in> set (map fst it)
                then map (\<lambda>(k', v'). if k' = k then (k', v) else (k', v')) it
                else it @ [(k, v)]) kvs"

text \<open>
  An update with \<^verbatim>\<open>ReturnValues: ALL_NEW\<close>: \<open>Inr (Some it)\<close> carries the item as it is
  after the update, \<open>Inr None\<close> is an output that is nil or whose \<^verbatim>\<open>Attributes\<close> is nil.
\<close>

definition ddb_UpdateItem ::
  "world \<Rightarrow> string \<Rightarrow> string \<Rightarrow> (string \<times> attr) list \<Rightarrow> cond
     \<Rightarrow> (error + item option) \<times> world" where
  "ddb_UpdateItem w ty i sets c =
     (if \<not> serializable_attrs sets then (Inl ErrSerialization, w)
      else
        (case next_fault w of
           (BackendError m, w') \<Rightarrow> (Inl (ErrBackend m), w')
         | (f, w') \<Rightarrow>
             (let old = lookup_item (items w') ty i in
              if eval_cond c old
              then (let new = set_attrs (case old of
                                           None \<Rightarrow> [(''type'', AvS ty), (''id'', AvS i)]
                                         | Some it \<Rightarrow> it) sets
                    in (Inr (if f = NilOutput then None else Some new),
                        w'\<lparr>items := store_item (items w') ty i new\<rparr>))
              else (Inl ErrConditionalCheckFailed, w'))))"

definition ddb_DeleteItem :: "world \<Rightarrow> string \<Rightarrow> string \<Rightarrow> cond \<Rightarrow> error option \<times> world" where
  "ddb_DeleteItem w ty i c =
     (case next_fault w of
        (BackendError m, w') \<Rightarrow> (Some (ErrBackend m), w')
      | (_, w') \<Rightarrow>
          if eval_cond c (lookup_item (items w') ty i)
          then (None, w'\<lparr>items := filter (\<lambda>it. \<not> has_key ty i it) (items w')\<rparr>)
          else (Some ErrConditionalCheckFailed, w'))"


section \<open>Row store\<close>

text \<open>
  The two condition expressions the client sends:
  \<^verbatim>\<open>attribute_not_exists(#type) AND attribute_not_exists(#id)\<close> and
  \<^verbatim>\<open>attribute_exists(#type) AND attribute_exists(#id)\<close>, with the expression attribute
  names resolved.
\<close>

definition key_not_exists :: cond where
  "key_not_exists =
     CondAnd (AttributeNotExists storageKeyType) (AttributeNotExists storageKeyID)"

definition key_exists :: cond where
  "key_exists = CondAnd (AttributeExists storageKeyType) (AttributeExists storageKeyID)"

definition typeLabelQuery :: "string \<Rightarrow> string \<Rightarrow> query_input" where
  "typeLabelQuery rowType label =
     \<lparr>IndexName = storageLSIByTypeAndLabel,
      KeyConditions = [(storageKeyType, rowType), (storageAttrLabel, label)],
      FilterExpression = []\<rparr>"

definition parentLabelQuery :: "string \<Rightarrow> string \<Rightarrow> query_input" where
  "parentLabelQuery parentID label =
     \<lparr>IndexName = storageGSIByParentAndLabel,
      KeyConditions = [(storageAttrParentID, parentID), (storageAttrLabel, label)],
      FilterExpression = []\<rparr>"

definition typeParentQuery :: "string \<Rightarrow> string \<Rightarrow> query_input" where
  "typeParentQuery childType i =
     \<lparr>IndexName = storageLSIByTypeAndParent,
      KeyConditions = [(storageKeyType, childType), (storageAttrParentID, i)],
      FilterExpression = []\<rparr>"

definition GetRowByID :: "world \<Rightarrow> string \<Rightarrow> string \<Rightarrow> (error + row) \<times> world" where
  "GetRowByID w rowType i =
     (case ddb_GetItem w rowType i of
        (Inl err, w') \<Rightarrow> (Inl err, w')
      | (Inr None, w') \<Rightarrow> (Inl ErrNilDereference, w')
      | (Inr (Some None), w') \<Rightarrow> (Inl (ErrWrap ErrNotFoundRow [i]), w')
      | (Inr (Some (Some it)), w') \<Rightarrow> (itemToRow it, w'))"

definition GetRow :: "world \<Rightarrow> string \<Rightarrow> string \<Rightarrow> (error + row) \<times> world" where
  "GetRow w rowType label =
     (case ddb_Query w (typeLabelQuery rowType label) of
        (Inl err, w') \<Rightarrow> (Inl err, w')
      | (Inr None, w') \<Rightarrow> (Inl ErrNilQueryOutput, w')
      | (Inr (Some its), w') \<Rightarrow>
          if length its = 0 then (Inl (ErrWrap ErrNotFoundRow [rowType, label]), w')
          else if length its > 1 then (Inl (ErrWrap ErrTooManyFound [rowType, label]), w')
          else (itemToRow (its ! 0), w'))"

definition CreateRow :: "world \<Rightarrow> string \<Rightarrow> string \<Rightarrow> (error + row) \<times> world" where
  "CreateRow w rowType label =
     (case ddb_Query w (typeLabelQuery rowType label) of
        (Inl err, w1) \<Rightarrow> (Inl err, w1)
      | (Inr None, w1) \<Rightarrow> (Inl ErrNilQueryOutput, w1)
      | (Inr (Some its), w1) \<Rightarrow>
          if length its > 0 then (Inl ErrCollisionTypeLabel, w1)
          else
            (case Generate w1 rowType of (i, w2) \<Rightarrow>
              (case ddb_PutItem w2
                      [(storageKeyType, AvS rowType),
                       (storageKeyID, AvS i),
                       (storageAttrLabel, AvS label)]
                      key_not_exists of
                 (Some err, w3) \<Rightarrow> (Inl err, w3)
               | (None, w3) \<Rightarrow>
                   (Inr \<lparr>RowType = rowType, RowID = i, RowLabel = label,
                         RowParentID = [], RowColumns = None\<rparr>, w3))))"

definition CreateChild ::
  "world \<Rightarrow> string \<Rightarrow> string \<Rightarrow> string \<Rightarrow> string \<Rightarrow> columns option
     \<Rightarrow> (error + row) \<times> world" where
  "CreateChild w rowType label parentType parentID cols =
     (case Generate w rowType of (i, w1) \<Rightarrow>
       (case GetRowByID w1 parentType parentID of
          (Inl err, w2) \<Rightarrow> (Inl err, w2)
        | (Inr parent, w2) \<Rightarrow>
            (case ddb_Query w2 (parentLabelQuery parentID label) of
               (Inl err, w3) \<Rightarrow> (Inl err, w3)
             | (Inr None, w3) \<Rightarrow> (Inl ErrNilQueryOutput, w3)
             | (Inr (Some its), w3) \<Rightarrow>
                 if length its > 0 then (Inl ErrCollisionParentLabel, w3)
                 else
                   (case ddb_PutItem w3
                           [(storageKeyType, AvS rowType),
                            (storageKeyID, AvS i),
                            (storageAttrLabel, AvS label),
                            (storageAttrParentID, AvS parentID),
                            (storageAttrColumns, AvM (columnsToMap cols))]
                           key_not_exists of
                      (Some err, w4) \<Rightarrow> (Inl err, w4)
                    | (None, w4) \<Rightarrow>
                        (Inr \<lparr>RowType = rowType, RowID = i, RowLabel = label,
                              RowParentID = RowID parent, RowColumns = cols\<rparr>, w4)))))"

definition GetChild :: "world \<Rightarrow> string \<Rightarrow> string \<Rightarrow> (error + row) \<times> world" where
  "GetChild w label parentID =
     (case ddb_Query w (parentLabelQuery parentID label) of
        (Inl err, w') \<Rightarrow> (Inl err, w')
      | (Inr None, w') \<Rightarrow> (Inl ErrNilQueryOutput, w')
      | (Inr (Some its), w') \<Rightarrow>
          if length its = 0 then (Inl (ErrWrap ErrNotFoundRow [parentID, label]), w')
          else if length its > 1 then (Inl (ErrWrap ErrTooManyFound [parentID, label]), w')
          else (itemToRow (its ! 0), w'))"

text \<open>The loop of \<^verbatim>\<open>ListRows\<close> over the items: the first item that fails to decode ends it.\<close>

fun itemsToRows :: "item list \<Rightarrow> error + row list" where
  "itemsToRows [] = Inr []"
| "itemsToRows (it # its) =
     (case itemToRow it of
        Inl err \<Rightarrow> Inl err
      | Inr r \<Rightarrow> (case itemsToRows its of Inl err \<Rightarrow> Inl err | Inr rs \<Rightarrow> Inr (r # rs)))"

definition listRowsQuery :: "string \<Rightarrow> string \<Rightarrow> string \<Rightarrow> query_input" where
  "listRowsQuery rowType labelFilter parentIDFilter =
     \<lparr>IndexName = storageGSIByType,
      KeyConditions = [(storageKeyType, rowType)],
      FilterExpression =
        (if labelFilter \<noteq> [] then [Contains storageAttrLabel labelFilter] else []) @
        (if parentIDFilter \<noteq> [] then [Equals storageAttrParentID parentIDFilter] else [])\<rparr>"

definition ListRows ::
  "world \<Rightarrow> string \<Rightarrow> string \<Rightarrow> string \<Rightarrow> (error + row list) \<times> world" where
  "ListRows w rowType labelFilter parentIDFilter =
     (case ddb_Query w (listRowsQuery rowType labelFilter parentIDFilter) of
        (Inl err, w') \<Rightarrow> (Inl err, w')
      | (Inr None, w') \<Rightarrow> (Inl ErrNilQueryOutput, w')
      | (Inr (Some its), w') \<Rightarrow> (itemsToRows its, w'))"

definition UpdateRow :: "world \<Rightarrow> string \<Rightarrow> string \<Rightarrow> string \<Rightarrow> (error + row) \<times> world" where
  "UpdateRow w rowType i newLabel =
     (case GetRowByID w rowType i of
        (Inl err, w1) \<Rightarrow> (Inl err, w1)
      | (Inr this, w1) \<Rightarrow>
          (case GetChild w1 newLabel (RowParentID this) of
             (Inr other, w2) \<Rightarrow> (Inl ErrCollisionParentLabel, w2)
           | (Inl err, w2) \<Rightarrow>
               if \<not> errors_Is err ErrNotFoundRow then (Inl err, w2)
               else
                 (case ddb_UpdateItem w2 rowType i
                         [(storageAttrLabel, AvS newLabel)] key_not_exists of
                    (Inl err', w3) \<Rightarrow> (Inl err', w3)
                  | (Inr None, w3) \<Rightarrow> (Inl ErrNilQueryOutput, w3)
                  | (Inr (Some attrs), w3) \<Rightarrow> (itemToRow attrs, w3))))"

definition UpdateChild ::
  "world \<Rightarrow> string \<Rightarrow> string \<Rightarrow> string \<Rightarrow> string \<Rightarrow> string \<Rightarrow> (error + row) \<times> world" where
  "UpdateChild w childType childID newChildLabel parentType newParentID =
     (case GetRowByID w parentType newParentID of
        (Inl err, w1) \<Rightarrow> (Inl err, w1)
      | (Inr parent, w1) \<Rightarrow>
          (case GetChild w1 newChildLabel newParentID of
             (Inr other, w2) \<Rightarrow> (Inl ErrCollisionParentLabel, w2)
           | (Inl err, w2) \<Rightarrow>
               if \<not> errors_Is err ErrNotFoundRow then (Inl err, w2)
               else
                 (case ddb_UpdateItem w2 childType childID
                         [(storageAttrLabel, AvS newChildLabel),
                          (storageAttrParentID, AvS newParentID)] key_not_exists of
                    (Inl err', w3) \<Rightarrow> (Inl err', w3)
                  | (Inr None, w3) \<Rightarrow> (Inl ErrNilQueryOutput, w3)
                  | (Inr (Some attrs), w3) \<Rightarrow> (itemToRow attrs, w3))))"

text \<open>
  \<^verbatim>\<open>UpdateColumns\<close> replaces the \<^verbatim>\<open>columns\<close> attribute; its condition is the existence
  of the key.
\<close>

definition UpdateColumns ::
  "world \<Rightarrow> string \<Rightarrow> string \<Rightarrow> columns option \<Rightarrow> error option \<times> world" where
  "UpdateColumns w rowType rowID cols =
     (case ddb_UpdateItem w rowType rowID
             [(storageAttrColumns, AvM (columnsToMap cols))] key_exists of
        (Inl err, w') \<Rightarrow> (Some err, w')
      | (Inr out, w') \<Rightarrow> (None, w'))"

definition DeleteRow :: "world \<Rightarrow> string \<Rightarrow> string \<Rightarrow> string \<Rightarrow> error option \<times> world" where
  "DeleteRow w rowType childType i =
     (if length childType > 0
      then
        (case ddb_Query w (typeParentQuery childType i) of
           (Inl err, w1) \<Rightarrow> (Some err, w1)
         | (Inr None, w1) \<Rightarrow> (Some ErrNilQueryOutput, w1)
         | (Inr (Some its), w1) \<Rightarrow>
             if length its > 0 then (Some (ErrWrap ErrCannotDeleteRow [rowType, i]), w1)
             else ddb_DeleteItem w1 rowType i key_exists)
      else ddb_DeleteItem w rowType i key_exists)"

section \<open>Table lifecycle\<close>













section \<open>The table as the operations see it\<close>

text \<open>
  What the three keyed indexes hold under a given key, whether a primary key is taken,
  and the shape of the items this client writes: \<open>type\<close>, \<open>id\<close> and \<open>label\<close> are
  strings, \<open>parent_id\<close> a string when present, \<open>columns\<close> a map when present.
\<close>

definition typeLabelIndex :: "item list \<Rightarrow> string \<Rightarrow> string \<Rightarrow> item list" where
  "typeLabelIndex tbl ty l =
     [it \<leftarrow> tbl. map_of it ''type'' = Some (AvS ty) \<and> map_of it ''label'' = Some (AvS l)]"

definition parentLabelIndex :: "item list \<Rightarrow> string \<Rightarrow> string \<Rightarrow> item list" where
  "parentLabelIndex tbl p l =
     [it \<leftarrow> tbl. map_of it ''parent_id'' = Some (AvS p) \<and> map_of it ''label'' = Some (AvS l)]"

definition typeParentIndex :: "item list \<Rightarrow> string \<Rightarrow> string \<Rightarrow> item list" where
  "typeParentIndex tbl ty p =
     [it \<leftarrow> tbl. map_of it ''type'' = Some (AvS ty) \<and> map_of it ''parent_id'' = Some (AvS p)]"

definition row_exists :: "item list \<Rightarrow> string \<Rightarrow> string \<Rightarrow> bool" where
  "row_exists tbl ty i = list_ex (has_key ty i) tbl"

definition wf_item :: "item \<Rightarrow> bool" where
  "wf_item it \<longleftrightarrow>
     is_S (map_of it ''type'') \<and> is_S (map_of it ''id'') \<and> is_S (map_of it ''label'') \<and>
     (case map_of it ''parent_id'' of None \<Rightarrow> True | Some a \<Rightarrow> is_S (Some a)) \<and>
     (case map_of it ''columns'' of None \<Rightarrow> True | Some (AvM m) \<Rightarrow> True | Some _ \<Rightarrow> False)"

definition wf_table :: "item list \<Rightarrow> bool" where
  "wf_table tbl = list_all wf_item tbl"

text \<open>The rows of a table: its items, decoded.\<close>

definition table_rows :: "item list \<Rightarrow> row list" where
  "table_rows tbl =
     List.map_filter (\<lambda>it. case itemToRow it of Inl e \<Rightarrow> None | Inr r \<Rightarrow> Some r) tbl"

text \<open>
  The two kinds of column value the row model knows, a string and a set of strings, and
  how each is stored: a string as an \<^verbatim>\<open>S\<close>, a set of strings as an \<^verbatim>\<open>SS\<close>.
\<close>

fun supported :: "iface \<Rightarrow> bool" where
  "supported (IString s) = True"
| "supported (IStringList ss) = True"
| "supported v = False"

definition supported_columns :: "columns option \<Rightarrow> bool" where
  "supported_columns cols =
     (case cols of None \<Rightarrow> True | Some kvs \<Rightarrow> list_all (\<lambda>kv. supported (snd kv)) kvs)"

fun stored_as :: "iface \<Rightarrow> attr option \<Rightarrow> bool" where
  "stored_as (IString s) a = (a = Some (AvS s))"
| "stored_as (IStringList ss) a = (a = Some (AvSS ss))"
| "stored_as v a = False"

definition columns_stored_as :: "columns option \<Rightarrow> (string \<times> attr option) list \<Rightarrow> bool" where
  "columns_stored_as cols m =
     list_all2 (\<lambda>kv ma. fst ma = fst kv \<and> stored_as (snd kv) (snd ma))
       (case cols of None \<Rightarrow> [] | Some kvs \<Rightarrow> kvs) m"

text \<open>
  What the query of \<^verbatim>\<open>ListRows\<close> selects, on the stored item and on the decoded row.
\<close>

definition item_selected :: "string \<Rightarrow> string \<Rightarrow> string \<Rightarrow> item \<Rightarrow> bool" where
  "item_selected ty lf pf it \<longleftrightarrow>
     map_of it ''type'' = Some (AvS ty) \<and>
     (lf \<noteq> [] \<longrightarrow> filter_match it (Contains ''label'' lf)) \<and>
     (pf \<noteq> [] \<longrightarrow> filter_match it (Equals ''parent_id'' pf))"

definition row_selected :: "string \<Rightarrow> string \<Rightarrow> string \<Rightarrow> row \<Rightarrow> bool" where
  "row_selected ty lf pf r \<longleftrightarrow>
     RowType r = ty \<and> (lf \<noteq> [] \<longrightarrow> sublist lf (RowLabel r)) \<and>
     (pf \<noteq> [] \<longrightarrow> RowParentID r = pf)"

section \<open>Example tables\<close>

text \<open>
  The scenario of the specification: an organization \<open>acme\<close> with a team \<open>product\<close>
  under it. \<open>duplicate_world\<close> is a table in which two organizations carry the same
  label and two children of one parent carry the same label, as two racing creations
  can leave it.
\<close>

definition org_acme :: item where
  "org_acme =
     [(''type'', AvS ''organization''), (''id'', AvS ''organization_a''),
      (''label'', AvS ''acme'')]"

definition team_product :: item where
  "team_product =
     [(''type'', AvS ''team''), (''id'', AvS ''team_p''), (''label'', AvS ''product''),
      (''parent_id'', AvS ''organization_a''), (''columns'', AvM [])]"

definition org_acme_again :: item where
  "org_acme_again =
     [(''type'', AvS ''organization''), (''id'', AvS ''organization_b''),
      (''label'', AvS ''acme'')]"

definition env_product :: item where
  "env_product =
     [(''type'', AvS ''environment''), (''id'', AvS ''environment_p''),
      (''label'', AvS ''product''), (''parent_id'', AvS ''organization_a''),
      (''columns'', AvM [])]"

definition example_world :: world where
  "example_world =
     \<lparr>items = [org_acme, team_product], faults = [], rand_src = (\<lambda>n. n), rand_pos = 0\<rparr>"

definition duplicate_world :: world where
  "duplicate_world =
     \<lparr>items = [org_acme, team_product, org_acme_again, env_product], faults = [],
      rand_src = (\<lambda>n. n), rand_pos = 0\<rparr>"

definition empty_world :: world where
  "empty_world = \<lparr>items = [], faults = [], rand_src = (\<lambda>n. n), rand_pos = 0\<rparr>"

text \<open>
  A table that already holds the identifier the generator produces next from
  \<open>rand_src = (\<lambda>n. n)\<close> at position 0.
\<close>

definition collision_world :: world where
  "collision_world =
     \<lparr>items = [[(''type'', AvS ''organization''), (''id'', AvS ''organization_abcdefghij''),
                (''label'', AvS ''initech'')]],
      faults = [], rand_src = (\<lambda>n. n), rand_pos = 0\<rparr>"

text \<open>A datastore that answers the next request with a throttling error.\<close>

definition throttled_world :: world where
  "throttled_world =
     \<lparr>items = [org_acme, team_product], faults = [BackendError ''ThrottlingException''],
      rand_src = (\<lambda>n. n), rand_pos = 0\<rparr>"







section \<open>Facts about the datastore and the row model\<close>




lemmas storage_names =
  storageKeyType_def storageKeyID_def storageAttrParentID_def storageAttrLabel_def
  storageAttrColumns_def storageGSIByParentAndLabel_def storageGSIByType_def
  storageLSIByTypeAndLabel_def storageLSIByTypeAndParent_def

lemma next_fault_reliable: "faults w = [] \<Longrightarrow> next_fault w = (NoFault, w)"
  by (simp add: next_fault_def)

lemma is_S_iff: "is_S x \<longleftrightarrow> (\<exists>s. x = Some (AvS s))"
  by (cases x rule: is_S.cases) auto

lemma query_typeLabel:
  "faults w = [] \<Longrightarrow>
     ddb_Query w (typeLabelQuery ty l) = (Inr (Some (typeLabelIndex (items w) ty l)), w)"
  unfolding ddb_Query_def typeLabelQuery_def typeLabelIndex_def query_items_def
  by (auto simp: next_fault_reliable index_keys_def storage_names in_index_def key_match_def
      intro!: filter_cong)

lemma query_parentLabel:
  "faults w = [] \<Longrightarrow>
     ddb_Query w (parentLabelQuery p l) = (Inr (Some (parentLabelIndex (items w) p l)), w)"
  unfolding ddb_Query_def parentLabelQuery_def parentLabelIndex_def query_items_def
  by (auto simp: next_fault_reliable index_keys_def storage_names in_index_def key_match_def
      intro!: filter_cong)

lemma query_typeParent:
  "faults w = [] \<Longrightarrow>
     ddb_Query w (typeParentQuery ty p) = (Inr (Some (typeParentIndex (items w) ty p)), w)"
  unfolding ddb_Query_def typeParentQuery_def typeParentIndex_def query_items_def
  by (auto simp: next_fault_reliable index_keys_def storage_names in_index_def key_match_def
      intro!: filter_cong)

lemma getItem_reliable:
  "faults w = [] \<Longrightarrow> ddb_GetItem w ty i = (Inr (Some (lookup_item (items w) ty i)), w)"
  by (simp add: ddb_GetItem_def next_fault_reliable)

lemma lookup_item_None: "lookup_item tbl ty i = None \<longleftrightarrow> \<not> row_exists tbl ty i"
  by (auto simp: lookup_item_def row_exists_def find_None_iff list_ex_iff)

lemma lookup_item_Some: "lookup_item tbl ty i = Some it \<Longrightarrow> has_key ty i it \<and> it \<in> set tbl"
  by (auto simp: lookup_item_def find_Some_iff)

lemma eval_key_not_exists:
  "eval_cond key_not_exists (lookup_item tbl ty i) \<longleftrightarrow> \<not> row_exists tbl ty i"
proof (cases "lookup_item tbl ty i")
  case None
  then show ?thesis by (simp add: key_not_exists_def lookup_item_None[symmetric])
next
  case (Some it)
  then have "has_key ty i it" by (simp add: lookup_item_Some)
  with Some show ?thesis
    using lookup_item_None[of tbl ty i]
    by (simp add: key_not_exists_def has_key_def storage_names)
qed

lemma eval_key_exists:
  "eval_cond key_exists (lookup_item tbl ty i) \<longleftrightarrow> row_exists tbl ty i"
proof (cases "lookup_item tbl ty i")
  case None
  then show ?thesis by (simp add: key_exists_def lookup_item_None[symmetric])
next
  case (Some it)
  then have "has_key ty i it" by (simp add: lookup_item_Some)
  with Some show ?thesis
    using lookup_item_None[of tbl ty i]
    by (simp add: key_exists_def has_key_def storage_names)
qed

lemma store_item_fresh: "\<not> row_exists tbl ty i \<Longrightarrow> store_item tbl ty i it = tbl @ [it]"
  by (simp add: store_item_def row_exists_def)

lemma Generate_shape:
  "\<exists>sfx. Generate w ty = (ty @ ''_'' @ sfx, w\<lparr>rand_pos := rand_pos w + 10\<rparr>)
       \<and> length sfx = 10 \<and> set sfx \<subseteq> set letters"
proof -
  have "0 < length letters" by (simp add: letters_def)
  then have "letters ! (k mod length letters) \<in> set letters" for k
    by (intro nth_mem) simp
  then show ?thesis
    by (auto simp: Generate_def randSeq_def)
qed

lemma Generate_world:
  "items (snd (Generate w ty)) = items w" "faults (snd (Generate w ty)) = faults w"
  by (simp_all add: Generate_def randSeq_def)

lemma stringField_S: "map_of it k = Some (AvS s) \<Longrightarrow> stringField it k = Inr s"
  by (simp add: stringField_def)

lemma stringField_None: "map_of it k = None \<Longrightarrow> stringField it k = Inr []"
  by (simp add: stringField_def)

lemma columnsField_wf:
  "(case map_of it k of None \<Rightarrow> True | Some (AvM m) \<Rightarrow> True | Some _ \<Rightarrow> False)
     \<Longrightarrow> \<exists>c. columnsField it k = Inr c"
  by (cases "map_of it k") (auto simp: columnsField_def split: attr.splits)

lemma wf_item_decodes:
  assumes "wf_item it"
  shows "\<exists>r. itemToRow it = Inr r \<and>
           map_of it ''type'' = Some (AvS (RowType r)) \<and>
           map_of it ''id'' = Some (AvS (RowID r)) \<and>
           map_of it ''label'' = Some (AvS (RowLabel r)) \<and>
           (\<forall>p. p \<noteq> [] \<longrightarrow> (map_of it ''parent_id'' = Some (AvS p) \<longleftrightarrow> RowParentID r = p))"
proof -
  from assms obtain t i l where
    t: "map_of it ''type'' = Some (AvS t)" and i: "map_of it ''id'' = Some (AvS i)" and
    l: "map_of it ''label'' = Some (AvS l)"
    unfolding wf_item_def is_S_iff by blast
  from assms obtain c where c: "columnsField it ''columns'' = Inr c"
    unfolding wf_item_def using columnsField_wf[of it "''columns''"] by blast
  from assms have "map_of it ''parent_id'' = None \<or> (\<exists>p. map_of it ''parent_id'' = Some (AvS p))"
    unfolding wf_item_def is_S_iff by (cases "map_of it ''parent_id''") auto
  then show ?thesis
  proof
    assume p: "map_of it ''parent_id'' = None"
    show ?thesis
      unfolding itemToRow_def
      by (simp add: stringField_S[OF t] stringField_S[OF i] stringField_S[OF l]
          stringField_None[OF p] c t i l p)
  next
    assume "\<exists>p. map_of it ''parent_id'' = Some (AvS p)"
    then obtain p where p: "map_of it ''parent_id'' = Some (AvS p)" ..
    show ?thesis
      unfolding itemToRow_def
      by (simp add: stringField_S[OF t] stringField_S[OF i] stringField_S[OF l]
          stringField_S[OF p] c t i l p)
  qed
qed

lemmas example_defs =
  example_world_def duplicate_world_def empty_world_def org_acme_def team_product_def
  org_acme_again_def env_product_def

lemma next_fault_items: "next_fault w = (f, w') \<Longrightarrow> items w' = items w"
  by (auto simp: next_fault_def split: list.splits)

lemma next_fault_faults: "next_fault w = (f, w') \<Longrightarrow> faults w' = tl (faults w)"
  by (auto simp: next_fault_def split: list.splits)

lemma query_items_typeLabel:
  "query_items tbl (typeLabelQuery ty l) [''type'', ''label''] = typeLabelIndex tbl ty l"
  unfolding typeLabelQuery_def typeLabelIndex_def query_items_def
  by (auto simp: storage_names in_index_def key_match_def intro!: filter_cong)

lemma ddb_Query_answer:
  assumes "ddb_Query w q = (Inr (Some its), w')"
  shows "\<exists>ks. index_keys (IndexName q) = Some ks \<and> its = query_items (items w) q ks
           \<and> items w' = items w"
proof -
  obtain f v where nf: "next_fault w = (f, v)" by (cases "next_fault w")
  from assms nf next_fault_items[OF nf] show ?thesis
    by (cases f; cases "index_keys (IndexName q)") (auto simp: ddb_Query_def)
qed

lemma ddb_PutItem_done:
  assumes "ddb_PutItem w it c = (None, w')"
  shows "serializable_attrs it \<and>
         (\<exists>ty i. item_key it = Some (ty, i) \<and> eval_cond c (lookup_item (items w) ty i)
           \<and> items w' = store_item (items w) ty i it)"
proof -
  obtain f v where nf: "next_fault w = (f, v)" by (cases "next_fault w")
  from assms nf next_fault_items[OF nf] show ?thesis
    by (cases f; cases "item_key it"; cases "serializable_attrs it")
       (auto simp: ddb_PutItem_def split: if_splits)
qed

lemma ddb_PutItem_failed:
  assumes "ddb_PutItem w it c = (Some e, w')"
  shows "items w' = items w"
proof -
  obtain f v where nf: "next_fault w = (f, v)" by (cases "next_fault w")
  from assms nf next_fault_items[OF nf] show ?thesis
    by (cases f; cases "item_key it"; cases "serializable_attrs it")
       (auto simp: ddb_PutItem_def split: if_splits)
qed

lemma ddb_PutItem_unserializable:
  "\<not> serializable_attrs it \<Longrightarrow> ddb_PutItem w it c = (Some ErrSerialization, w)"
  by (simp add: ddb_PutItem_def)

lemma ddb_PutItem_reliable:
  assumes "faults w = []" "item_key it = Some (ty, i)" "serializable_attrs it"
  shows "ddb_PutItem w it key_not_exists =
           (if row_exists (items w) ty i then (Some ErrConditionalCheckFailed, w)
            else (None, w\<lparr>items := items w @ [it]\<rparr>))"
  using assms
  by (simp add: ddb_PutItem_def next_fault_reliable eval_key_not_exists store_item_fresh)

lemma item_key_root: "item_key [(''type'', AvS ty), (''id'', AvS i), (''label'', AvS l)] = Some (ty, i)"
  by (simp add: item_key_def)

lemma serializable_root:
  "serializable_attrs [(''type'', AvS ty), (''id'', AvS i), (''label'', AvS l)]"
  by (simp add: serializable_attrs_def)

lemma typeLabelIndex_append:
  "typeLabelIndex (tbl @ [it]) ty l = typeLabelIndex tbl ty l @ typeLabelIndex [it] ty l"
  by (simp add: typeLabelIndex_def)

lemma itemToRow_root:
  "itemToRow [(''type'', AvS ty), (''id'', AvS i), (''label'', AvS l)] =
     Inr \<lparr>RowType = ty, RowID = i, RowLabel = l, RowParentID = [], RowColumns = None\<rparr>"
  by (simp add: itemToRow_def stringField_def columnsField_def)

lemma CreateRow_success:
  assumes "CreateRow w ty l = (Inr r, w1)"
  shows "typeLabelIndex (items w) ty l = [] \<and> \<not> row_exists (items w) ty (RowID r) \<and>
         r = \<lparr>RowType = ty, RowID = RowID r, RowLabel = l, RowParentID = [], RowColumns = None\<rparr> \<and>
         items w1 = items w @ [[(''type'', AvS ty), (''id'', AvS (RowID r)), (''label'', AvS l)]]"
proof -
  obtain x wa where q: "ddb_Query w (typeLabelQuery ty l) = (x, wa)"
    by (cases "ddb_Query w (typeLabelQuery ty l)")
  with assms obtain its where x: "x = Inr (Some its)" and e: "its = []"
    by (cases x) (auto simp: CreateRow_def split: option.splits if_splits)
  from ddb_Query_answer[OF q[unfolded x]] e
  have idx: "typeLabelIndex (items w) ty l = []" and wa: "items wa = items w"
    by (auto simp: typeLabelQuery_def index_keys_def storage_names
        query_items_typeLabel[unfolded typeLabelQuery_def storage_names])
  obtain i wb where g: "Generate wa ty = (i, wb)" by (cases "Generate wa ty")
  then have wb: "items wb = items wa" using Generate_world(1)[of wa ty] by simp
  let ?it = "[(''type'', AvS ty), (''id'', AvS i), (''label'', AvS l)]"
  from assms q x e g have p: "ddb_PutItem wb ?it key_not_exists = (None, w1)"
    and r: "r = \<lparr>RowType = ty, RowID = i, RowLabel = l, RowParentID = [], RowColumns = None\<rparr>"
    by (auto simp: CreateRow_def storage_names split: option.splits prod.splits)
  from ddb_PutItem_done[OF p] have "\<not> row_exists (items wb) ty i"
    and "items w1 = store_item (items wb) ty i ?it"
    by (auto simp: item_key_root eval_key_not_exists)
  with idx wa wb r show ?thesis by (simp add: store_item_fresh)
qed

lemma Generate_from_start:
  "rand_src w = (\<lambda>n. n) \<Longrightarrow> rand_pos w = 0 \<Longrightarrow>
     Generate w ty = (ty @ ''_abcdefghij'', w\<lparr>rand_pos := 10\<rparr>)"
  by (simp add: Generate_def randSeq_def letters_def upt_rec)

lemma GetRowByID_reliable:
  "faults w = [] \<Longrightarrow> GetRowByID w ty i =
     (case lookup_item (items w) ty i of
        None \<Rightarrow> (Inl (ErrWrap ErrNotFoundRow [i]), w)
      | Some it \<Rightarrow> (itemToRow it, w))"
  by (simp add: GetRowByID_def getItem_reliable split: option.splits)

lemma GetRowByID_missing:
  "faults w = [] \<Longrightarrow> \<not> row_exists (items w) ty i \<Longrightarrow>
     GetRowByID w ty i = (Inl (ErrWrap ErrNotFoundRow [i]), w)"
  by (simp add: GetRowByID_reliable lookup_item_None[symmetric])

lemma GetRowByID_present:
  assumes "faults w = []" "wf_table (items w)" "row_exists (items w) ty i"
  shows "\<exists>r. GetRowByID w ty i = (Inr r, w) \<and> RowType r = ty \<and> RowID r = i"
proof -
  from assms(3) obtain it where l: "lookup_item (items w) ty i = Some it"
    using lookup_item_None[of "items w" ty i] by (cases "lookup_item (items w) ty i") auto
  from lookup_item_Some[OF l] assms(2) have k: "has_key ty i it" and "wf_item it"
    by (auto simp: wf_table_def list_all_iff)
  from wf_item_decodes[OF this(2)] k show ?thesis
    by (auto simp: GetRowByID_reliable[OF assms(1)] l has_key_def)
qed

lemma parentLabelIndex_empty:
  "parentLabelIndex tbl p l = [] \<longleftrightarrow>
     \<not> (\<exists>it\<in>set tbl. map_of it ''parent_id'' = Some (AvS p) \<and> map_of it ''label'' = Some (AvS l))"
  by (auto simp: parentLabelIndex_def filter_empty_conv)

lemma typeParentIndex_empty:
  "typeParentIndex tbl ty p = [] \<longleftrightarrow>
     \<not> (\<exists>it\<in>set tbl. map_of it ''type'' = Some (AvS ty) \<and> map_of it ''parent_id'' = Some (AvS p))"
  by (auto simp: typeParentIndex_def filter_empty_conv)

lemma item_key_child:
  "item_key [(''type'', AvS ty), (''id'', AvS i), (''label'', AvS l),
             (''parent_id'', AvS p), (''columns'', c)] = Some (ty, i)"
  by (simp add: item_key_def)

lemma ddb_DeleteItem_reliable:
  "faults w = [] \<Longrightarrow> ddb_DeleteItem w ty i key_exists =
     (if row_exists (items w) ty i
      then (None, w\<lparr>items := [it \<leftarrow> items w. \<not> has_key ty i it]\<rparr>)
      else (Some ErrConditionalCheckFailed, w))"
  by (simp add: ddb_DeleteItem_def next_fault_reliable eval_key_exists)

lemma query_listRows:
  "faults w = [] \<Longrightarrow>
     ddb_Query w (listRowsQuery ty lf pf)
       = (Inr (Some [it \<leftarrow> items w. item_selected ty lf pf it]), w)"
  unfolding ddb_Query_def listRowsQuery_def item_selected_def query_items_def
  by (auto simp: next_fault_reliable index_keys_def storage_names in_index_def key_match_def
      intro!: filter_cong)

lemma wf_item_selected:
  assumes "wf_item it" "itemToRow it = Inr r"
  shows "item_selected ty lf pf it \<longleftrightarrow> row_selected ty lf pf r"
proof -
  from wf_item_decodes[OF assms(1)] assms(2) have
    t: "map_of it ''type'' = Some (AvS (RowType r))" and
    l: "map_of it ''label'' = Some (AvS (RowLabel r))" and
    p: "\<And>p. p \<noteq> [] \<Longrightarrow> map_of it ''parent_id'' = Some (AvS p) \<longleftrightarrow> RowParentID r = p"
    by auto
  show ?thesis
    using p[of pf] by (auto simp: item_selected_def row_selected_def t l)
qed

lemma table_rows_Cons:
  "itemToRow it = Inr r \<Longrightarrow> table_rows (it # tbl) = r # table_rows tbl"
  by (simp add: table_rows_def map_filter_simps)

lemma table_rows_Nil: "table_rows [] = []"
  by (simp add: table_rows_def map_filter_simps)

lemma itemsToRows_selected:
  "wf_table tbl \<Longrightarrow>
     itemsToRows [it \<leftarrow> tbl. item_selected ty lf pf it]
       = Inr [r \<leftarrow> table_rows tbl. row_selected ty lf pf r]"
proof (induction tbl)
  case Nil
  show ?case by (simp add: table_rows_Nil)
next
  case (Cons it tbl)
  then have wf: "wf_item it" and IH: "itemsToRows [it \<leftarrow> tbl. item_selected ty lf pf it]
       = Inr [r \<leftarrow> table_rows tbl. row_selected ty lf pf r]"
    by (simp_all add: wf_table_def)
  from wf_item_decodes[OF wf] obtain r where r: "itemToRow it = Inr r" by blast
  show ?case
    by (simp add: table_rows_Cons[OF r] wf_item_selected[OF wf r] r IH)
qed

lemma table_rows_wf: "wf_table tbl \<Longrightarrow> map Inr (table_rows tbl) = map itemToRow tbl"
proof (induction tbl)
  case Nil
  show ?case by (simp add: table_rows_Nil)
next
  case (Cons it tbl)
  then have wf: "wf_item it" and IH: "map Inr (table_rows tbl) = map itemToRow tbl"
    by (simp_all add: wf_table_def)
  from wf_item_decodes[OF wf] obtain r where r: "itemToRow it = Inr r" by blast
  show ?case by (simp add: table_rows_Cons[OF r] r IH)
qed

lemma ListRows_reliable:
  assumes "faults w = []" "wf_table (items w)"
  shows "ListRows w ty lf pf = (Inr [r \<leftarrow> table_rows (items w). row_selected ty lf pf r], w)"
  by (simp add: ListRows_def query_listRows[OF assms(1)] itemsToRows_selected[OF assms(2)])

lemma stringField_error: "stringField it k = Inl e \<Longrightarrow> e = ErrUnmarshalType k"
  by (auto simp: stringField_def split: option.splits attr.splits)

lemma columnsField_error: "columnsField it k = Inl e \<Longrightarrow> e = ErrUnmarshalType k"
  by (auto simp: columnsField_def split: option.splits attr.splits)

lemma itemToRow_error:
  assumes "itemToRow it = Inl e"
  shows "\<exists>k. e = ErrUnmarshalType k"
proof -
  consider "stringField it ''type'' = Inl e" | "stringField it ''id'' = Inl e"
    | "stringField it ''label'' = Inl e" | "stringField it ''parent_id'' = Inl e"
    | "columnsField it ''columns'' = Inl e"
    using assms unfolding itemToRow_def
    by (cases "stringField it ''type''"; cases "stringField it ''id''";
        cases "stringField it ''label''"; cases "stringField it ''parent_id''";
        cases "columnsField it ''columns''") simp_all
  then show ?thesis
    by cases (blast dest: stringField_error columnsField_error)+
qed

lemma itemsToRows_error: "itemsToRows its = Inl e \<Longrightarrow> \<exists>k. e = ErrUnmarshalType k"
  by (induction its arbitrary: e) (auto split: sum.splits dest: itemToRow_error)

lemma ddb_Query_error:
  "ddb_Query w q = (Inl e, w') \<Longrightarrow> \<exists>m. e = ErrBackend m"
  by (auto simp: ddb_Query_def split: prod.splits fault.splits option.splits)

lemma ListRows_error:
  assumes "fst (ListRows w ty lf pf) = Inl e"
  shows "e = ErrNilQueryOutput \<or> (\<exists>m. e = ErrBackend m) \<or> (\<exists>k. e = ErrUnmarshalType k)"
proof -
  obtain x w' where q: "ddb_Query w (listRowsQuery ty lf pf) = (x, w')"
    by (cases "ddb_Query w (listRowsQuery ty lf pf)")
  show ?thesis
  proof (cases x)
    case (Inl e')
    with assms q ddb_Query_error[of w _ e' w'] show ?thesis by (auto simp: ListRows_def)
  next
    case (Inr out)
    with assms q show ?thesis
      by (cases out) (auto simp: ListRows_def dest: itemsToRows_error)
  qed
qed

lemma duplicate_world_rows:
  "table_rows (items duplicate_world) =
     [\<lparr>RowType = ''organization'', RowID = ''organization_a'', RowLabel = ''acme'',
       RowParentID = [], RowColumns = None\<rparr>,
      \<lparr>RowType = ''team'', RowID = ''team_p'', RowLabel = ''product'',
       RowParentID = ''organization_a'', RowColumns = Some []\<rparr>,
      \<lparr>RowType = ''organization'', RowID = ''organization_b'', RowLabel = ''acme'',
       RowParentID = [], RowColumns = None\<rparr>,
      \<lparr>RowType = ''environment'', RowID = ''environment_p'', RowLabel = ''product'',
       RowParentID = ''organization_a'', RowColumns = Some []\<rparr>]"
  by code_simp

lemma example_world_rows:
  "table_rows (items example_world) =
     [\<lparr>RowType = ''organization'', RowID = ''organization_a'', RowLabel = ''acme'',
       RowParentID = [], RowColumns = None\<rparr>,
      \<lparr>RowType = ''team'', RowID = ''team_p'', RowLabel = ''product'',
       RowParentID = ''organization_a'', RowColumns = Some []\<rparr>]"
  by code_simp

lemma serializable_child:
  "serializable_attrs [(''type'', AvS ty), (''id'', AvS i), (''label'', AvS l),
                       (''parent_id'', AvS p), (''columns'', AvM m)]
     \<longleftrightarrow> serializable_members m"
  by (simp add: serializable_attrs_def)

lemma serializable_converted:
  "serializable_members (map (\<lambda>(k, v). (k, ifaceToAttributeValue v)) kvs)
     \<longleftrightarrow> list_all (\<lambda>kv. supported (snd kv)) kvs"
proof (induction kvs)
  case Nil
  show ?case by simp
next
  case (Cons kv kvs)
  obtain k v where kv: "kv = (k, v)" by (cases kv)
  show ?case unfolding kv using Cons.IH by (cases v) simp_all
qed

lemma serializable_columnsToMap:
  "serializable_members (columnsToMap cols) \<longleftrightarrow> supported_columns cols"
  by (cases cols) (simp_all add: columnsToMap_def supported_columns_def serializable_converted)

lemma stored_as_converted:
  "list_all (\<lambda>kv. supported (snd kv)) kvs \<Longrightarrow>
     list_all2 (\<lambda>kv ma. fst ma = fst kv \<and> stored_as (snd kv) (snd ma)) kvs
       (map (\<lambda>(k, v). (k, ifaceToAttributeValue v)) kvs)"
proof (induction kvs)
  case Nil
  show ?case by simp
next
  case (Cons kv kvs)
  obtain k v where kv: "kv = (k, v)" by (cases kv)
  from Cons show ?case unfolding kv by (cases v) simp_all
qed

lemma columnsToMap_stored_as:
  "supported_columns cols \<Longrightarrow> columns_stored_as cols (columnsToMap cols)"
  by (cases cols)
     (simp_all add: columnsToMap_def supported_columns_def columns_stored_as_def
        stored_as_converted)

lemma unsupported_member:
  assumes "(k, v) \<in> set kvs" "\<forall>s. v \<noteq> IString s" "\<forall>ss. v \<noteq> IStringList ss"
  shows "\<not> supported_columns (Some kvs)"
proof -
  from assms(2,3) have "\<not> supported v" by (cases v) simp_all
  with assms(1) have "\<exists>kv\<in>set kvs. \<not> supported (snd kv)"
    by (intro bexI[of _ "(k, v)"]) simp_all
  then show ?thesis
    by (simp add: supported_columns_def list_all_iff)
qed

lemma GetRowByID_items: "GetRowByID w ty i = (x, w') \<Longrightarrow> items w' = items w"
proof -
  assume a: "GetRowByID w ty i = (x, w')"
  obtain f v where nf: "next_fault w = (f, v)" by (cases "next_fault w")
  from a nf next_fault_items[OF nf] show ?thesis
    by (cases f) (auto simp: GetRowByID_def ddb_GetItem_def split: option.splits)
qed

lemma GetRowByID_found:
  assumes "GetRowByID w ty i = (Inr r, w')"
  shows "\<exists>it. lookup_item (items w) ty i = Some it \<and> itemToRow it = Inr r"
proof -
  obtain f v where nf: "next_fault w = (f, v)" by (cases "next_fault w")
  from assms nf next_fault_items[OF nf] show ?thesis
    by (cases f) (auto simp: GetRowByID_def ddb_GetItem_def split: option.splits)
qed

lemma CreateChild_success:
  assumes "CreateChild w ty l pt pid cols = (Inr r, w1)"
  shows "RowType r = ty \<and> \<not> row_exists (items w) ty (RowID r) \<and>
         supported_columns cols \<and>
         items w1 = items w @
           [[(''type'', AvS ty), (''id'', AvS (RowID r)), (''label'', AvS l),
             (''parent_id'', AvS pid), (''columns'', AvM (columnsToMap cols))]]"
proof -
  obtain i wa where g: "Generate w ty = (i, wa)" by (cases "Generate w ty")
  then have wa: "items wa = items w" using Generate_world(1)[of w ty] by simp
  obtain x wb where p: "GetRowByID wa pt pid = (x, wb)" by (cases "GetRowByID wa pt pid")
  from GetRowByID_items[OF p] wa have wb: "items wb = items w" by simp
  from assms g p obtain parent where x: "x = Inr parent"
    by (cases x) (auto simp: CreateChild_def)
  obtain y wc where q: "ddb_Query wb (parentLabelQuery pid l) = (y, wc)"
    by (cases "ddb_Query wb (parentLabelQuery pid l)")
  from assms g p x q obtain its where y: "y = Inr (Some its)"
    by (cases y) (auto simp: CreateChild_def split: option.splits)
  from ddb_Query_answer[OF q[unfolded y]] wb have wc: "items wc = items w" by auto
  let ?it = "[(''type'', AvS ty), (''id'', AvS i), (''label'', AvS l),
              (''parent_id'', AvS pid), (''columns'', AvM (columnsToMap cols))]"
  from assms g p x q y have put: "ddb_PutItem wc ?it key_not_exists = (None, w1)"
    and r: "RowType r = ty" "RowID r = i"
    by (auto simp: CreateChild_def storage_names split: option.splits prod.splits if_splits)
  from ddb_PutItem_done[OF put] have "\<not> row_exists (items wc) ty i"
    and "items w1 = store_item (items wc) ty i ?it"
    and "supported_columns cols"
    by (auto simp: item_key_child eval_key_not_exists serializable_child
        serializable_columnsToMap)
  with wc r show ?thesis by (simp add: store_item_fresh)
qed

lemma lookup_item_appended:
  "\<not> row_exists tbl ty i \<Longrightarrow> has_key ty i it \<Longrightarrow> lookup_item (tbl @ [it]) ty i = Some it"
  by (induction tbl) (auto simp: lookup_item_def row_exists_def)

lemma attrsToIfaces_columnsToMap:
  "\<forall>kv\<in>set cols. (\<exists>s. snd kv = IString s) \<or> (\<exists>l. snd kv = IStringList l) \<Longrightarrow>
     attrsToIfaces (columnsToMap (Some cols)) = cols"
  by (induction cols) (auto simp: columnsToMap_def)

lemma itemToRow_child:
  "itemToRow [(''type'', AvS ty), (''id'', AvS i), (''label'', AvS l),
              (''parent_id'', AvS p), (''columns'', AvM m)] =
     Inr \<lparr>RowType = ty, RowID = i, RowLabel = l, RowParentID = p,
          RowColumns = Some (attrsToIfaces m)\<rparr>"
  by (simp add: itemToRow_def stringField_def columnsField_def)

lemma ddb_UpdateItem_key_taken:
  "faults w = [] \<Longrightarrow> row_exists (items w) ty i \<Longrightarrow> serializable_attrs sets \<Longrightarrow>
     ddb_UpdateItem w ty i sets key_not_exists = (Inl ErrConditionalCheckFailed, w)"
  by (simp add: ddb_UpdateItem_def next_fault_reliable eval_key_not_exists)

lemma UpdateRow_never_succeeds:
  assumes "faults w = []"
  shows "fst (UpdateRow w ty i newLabel) \<noteq> Inr r"
proof (cases "row_exists (items w) ty i")
  case False
  then show ?thesis
    by (simp add: UpdateRow_def GetRowByID_missing[OF assms])
next
  case True
  then obtain it where l: "lookup_item (items w) ty i = Some it"
    using lookup_item_None[of "items w" ty i] by (cases "lookup_item (items w) ty i") auto
  show ?thesis
  proof (cases "itemToRow it")
    case (Inl e)
    then show ?thesis by (simp add: UpdateRow_def GetRowByID_reliable[OF assms] l)
  next
    case (Inr this)
    obtain x w2 where g: "GetChild w newLabel (RowParentID this) = (x, w2)"
      by (cases "GetChild w newLabel (RowParentID this)")
    have w2: "w2 = w"
      using g by (auto simp: GetChild_def query_parentLabel[OF assms] split: if_splits)
    show ?thesis
      by (cases x)
         (simp_all add: UpdateRow_def GetRowByID_reliable[OF assms] l Inr g w2
           ddb_UpdateItem_key_taken[OF assms True] serializable_attrs_def)
  qed
qed

subsection \<open>Every operation keeps the items well formed\<close>

lemma ddb_Query_items: "ddb_Query w q = (x, w') \<Longrightarrow> items w' = items w"
proof -
  assume a: "ddb_Query w q = (x, w')"
  obtain f v where nf: "next_fault w = (f, v)" by (cases "next_fault w")
  from a nf next_fault_items[OF nf] show ?thesis
    by (cases f; cases "index_keys (IndexName q)") (auto simp: ddb_Query_def)
qed

lemma wf_store_item: "wf_table tbl \<Longrightarrow> wf_item it \<Longrightarrow> wf_table (store_item tbl ty i it)"
  by (auto simp: store_item_def wf_table_def list_all_iff)

lemma ddb_PutItem_wf:
  assumes "wf_table (items w)" "wf_item it" "ddb_PutItem w it c = (x, w')"
  shows "wf_table (items w')"
proof -
  obtain f v where nf: "next_fault w = (f, v)" by (cases "next_fault w")
  from assms nf next_fault_items[OF nf] show ?thesis
    by (cases f; cases "item_key it")
       (auto simp: ddb_PutItem_def wf_store_item split: if_splits)
qed

lemma ddb_DeleteItem_wf:
  assumes "wf_table (items w)" "ddb_DeleteItem w ty i c = (x, w')"
  shows "wf_table (items w')"
proof -
  obtain f v where nf: "next_fault w = (f, v)" by (cases "next_fault w")
  from assms nf next_fault_items[OF nf] show ?thesis
    by (cases f) (auto simp: ddb_DeleteItem_def wf_table_def list_all_iff split: if_splits)
qed

lemma map_of_replace:
  "map_of (map (\<lambda>(k', v'). if k' = k then (k', v) else (k', v')) it) k'' =
     (if k'' = k then (if k \<in> set (map fst it) then Some v else None) else map_of it k'')"
  by (induction it) (auto simp: image_iff split: if_splits)

lemma map_of_set_attr:
  "map_of (if k \<in> set (map fst it)
           then map (\<lambda>(k', v'). if k' = k then (k', v) else (k', v')) it
           else it @ [(k, v)]) = (map_of it)(k \<mapsto> v)"
proof (cases "k \<in> set (map fst it)")
  case True
  then show ?thesis by (simp only: if_True map_of_replace fun_eq_iff) simp
next
  case False
  then have "map_of it k = None" by (simp add: map_of_eq_None_iff)
  with False show ?thesis by (auto simp: map_add_def fun_eq_iff split: option.splits)
qed

lemma map_of_set_attrs:
  "map_of (set_attrs it kvs) = fold (\<lambda>(k, v) m. m(k \<mapsto> v)) kvs (map_of it)"
proof (induction kvs arbitrary: it)
  case Nil
  show ?case by simp
next
  case (Cons kv kvs)
  obtain k v where kv: "kv = (k, v)" by (cases kv)
  show ?case
    unfolding kv set_attrs.simps Cons.IH by (simp only: map_of_set_attr fold_simps split)
qed

lemma wf_item_fresh_label:
  "wf_item (set_attrs [(''type'', AvS ty), (''id'', AvS i)] [(''label'', AvS l)])"
  by (simp add: wf_item_def)

lemma wf_item_fresh_label_parent:
  "wf_item (set_attrs [(''type'', AvS ty), (''id'', AvS i)]
              [(''label'', AvS l), (''parent_id'', AvS p)])"
  by (simp add: wf_item_def)

lemma wf_item_set_label:
  "wf_item it \<Longrightarrow> wf_item (set_attrs it [(''label'', AvS l)])"
  unfolding wf_item_def map_of_set_attrs by simp

lemma wf_item_set_label_parent:
  "wf_item it \<Longrightarrow> wf_item (set_attrs it [(''label'', AvS l), (''parent_id'', AvS p)])"
  unfolding wf_item_def map_of_set_attrs by simp

lemma wf_item_set_columns:
  "wf_item it \<Longrightarrow> wf_item (set_attrs it [(''columns'', AvM m)])"
  unfolding wf_item_def map_of_set_attrs by simp

lemma ddb_UpdateItem_wf:
  assumes "wf_table (items w)" "ddb_UpdateItem w ty i sets c = (x, w')"
    and "\<And>it. wf_item it \<Longrightarrow> wf_item (set_attrs it sets)"
    and "eval_cond c None \<Longrightarrow> wf_item (set_attrs [(''type'', AvS ty), (''id'', AvS i)] sets)"
  shows "wf_table (items w')"
proof -
  obtain f v where nf: "next_fault w = (f, v)" by (cases "next_fault w")
  note iv = next_fault_items[OF nf]
  show ?thesis
  proof (cases "lookup_item (items w) ty i")
    case None
    with assms(1,2,4) nf iv show ?thesis
      by (cases f) (auto simp: ddb_UpdateItem_def Let_def wf_store_item split: if_splits)
  next
    case (Some it)
    with lookup_item_Some[OF Some] assms(1) have "wf_item it"
      by (auto simp: wf_table_def list_all_iff)
    with Some assms(1,2) assms(3)[of it] nf iv show ?thesis
      by (cases f) (auto simp: ddb_UpdateItem_def Let_def wf_store_item split: if_splits)
  qed
qed

lemma wf_item_root: "wf_item [(''type'', AvS ty), (''id'', AvS i), (''label'', AvS l)]"
  by (simp add: wf_item_def)

lemma wf_item_child:
  "wf_item [(''type'', AvS ty), (''id'', AvS i), (''label'', AvS l),
            (''parent_id'', AvS p), (''columns'', AvM m)]"
  by (simp add: wf_item_def)

lemma GetChild_items: "GetChild w l p = (x, w') \<Longrightarrow> items w' = items w"
  by (auto simp: GetChild_def split: prod.splits sum.splits option.splits if_splits
      dest: ddb_Query_items)

lemma CreateRow_wf:
  assumes "wf_table (items w)" shows "wf_table (items (snd (CreateRow w ty l)))"
proof -
  obtain x wa where q: "ddb_Query w (typeLabelQuery ty l) = (x, wa)"
    by (cases "ddb_Query w (typeLabelQuery ty l)")
  obtain i wb where g: "Generate wa ty = (i, wb)" by (cases "Generate wa ty")
  obtain y wc where p: "ddb_PutItem wb
      [(''type'', AvS ty), (''id'', AvS i), (''label'', AvS l)] key_not_exists = (y, wc)"
    by (cases "ddb_PutItem wb
      [(''type'', AvS ty), (''id'', AvS i), (''label'', AvS l)] key_not_exists")
  have wa: "wf_table (items wa)" using ddb_Query_items[OF q] assms by simp
  have wb: "wf_table (items wb)" using Generate_world(1)[of wa ty] g wa by simp
  have wc: "wf_table (items wc)" by (rule ddb_PutItem_wf[OF wb wf_item_root p])
  show ?thesis
    using wa wc
    by (auto simp: CreateRow_def q g p storage_names split: sum.splits option.splits)
qed

lemma CreateChild_wf:
  assumes "wf_table (items w)"
  shows "wf_table (items (snd (CreateChild w ty l pt pid cols)))"
proof -
  obtain i wa where g: "Generate w ty = (i, wa)" by (cases "Generate w ty")
  obtain x wb where p: "GetRowByID wa pt pid = (x, wb)" by (cases "GetRowByID wa pt pid")
  obtain y wc where q: "ddb_Query wb (parentLabelQuery pid l) = (y, wc)"
    by (cases "ddb_Query wb (parentLabelQuery pid l)")
  let ?it = "[(''type'', AvS ty), (''id'', AvS i), (''label'', AvS l),
              (''parent_id'', AvS pid), (''columns'', AvM (columnsToMap cols))]"
  obtain z wd where u: "ddb_PutItem wc ?it key_not_exists = (z, wd)"
    by (cases "ddb_PutItem wc ?it key_not_exists")
  have wa: "wf_table (items wa)" using Generate_world(1)[of w ty] g assms by simp
  have wb: "wf_table (items wb)" using GetRowByID_items[OF p] wa by simp
  have wc: "wf_table (items wc)" using ddb_Query_items[OF q] wb by simp
  have wd: "wf_table (items wd)" by (rule ddb_PutItem_wf[OF wc wf_item_child u])
  show ?thesis
    using wb wc wd
    by (auto simp: CreateChild_def g p q u storage_names split: sum.splits option.splits)
qed

lemma UpdateChild_wf:
  assumes "wf_table (items w)"
  shows "wf_table (items (snd (UpdateChild w ty i l pt pid)))"
proof -
  obtain x wa where p: "GetRowByID w pt pid = (x, wa)" by (cases "GetRowByID w pt pid")
  obtain y wb where q: "GetChild wa l pid = (y, wb)" by (cases "GetChild wa l pid")
  obtain z wc where u: "ddb_UpdateItem wb ty i
      [(''label'', AvS l), (''parent_id'', AvS pid)] key_not_exists = (z, wc)"
    by (cases "ddb_UpdateItem wb ty i
      [(''label'', AvS l), (''parent_id'', AvS pid)] key_not_exists")
  have wa: "wf_table (items wa)" using GetRowByID_items[OF p] assms by simp
  have wb: "wf_table (items wb)" using GetChild_items[OF q] wa by simp
  have wc: "wf_table (items wc)"
    by (rule ddb_UpdateItem_wf[OF wb u wf_item_set_label_parent wf_item_fresh_label_parent])
  show ?thesis
    using wa wb wc
    by (auto simp: UpdateChild_def p q u storage_names split: sum.splits option.splits)
qed

lemma UpdateRow_wf:
  assumes "wf_table (items w)"
  shows "wf_table (items (snd (UpdateRow w ty i l)))"
proof -
  obtain x wa where p: "GetRowByID w ty i = (x, wa)" by (cases "GetRowByID w ty i")
  have wa: "wf_table (items wa)" using GetRowByID_items[OF p] assms by simp
  show ?thesis
  proof (cases x)
    case (Inl e)
    with wa show ?thesis by (simp add: UpdateRow_def p)
  next
    case (Inr this)
    obtain y wb where q: "GetChild wa l (RowParentID this) = (y, wb)"
      by (cases "GetChild wa l (RowParentID this)")
    obtain z wc where u: "ddb_UpdateItem wb ty i [(''label'', AvS l)] key_not_exists = (z, wc)"
      by (cases "ddb_UpdateItem wb ty i [(''label'', AvS l)] key_not_exists")
    have wb: "wf_table (items wb)" using GetChild_items[OF q] wa by simp
    have wc: "wf_table (items wc)"
      by (rule ddb_UpdateItem_wf[OF wb u wf_item_set_label wf_item_fresh_label])
    show ?thesis
      using wb wc
      by (auto simp: UpdateRow_def p Inr q u storage_names split: sum.splits option.splits)
  qed
qed

lemma UpdateColumns_wf:
  assumes "wf_table (items w)"
  shows "wf_table (items (snd (UpdateColumns w ty i cols)))"
proof -
  obtain z wc where u: "ddb_UpdateItem w ty i
      [(''columns'', AvM (columnsToMap cols))] key_exists = (z, wc)"
    by (cases "ddb_UpdateItem w ty i [(''columns'', AvM (columnsToMap cols))] key_exists")
  have "wf_table (items wc)"
  proof (rule ddb_UpdateItem_wf[OF assms u wf_item_set_columns])
    assume "eval_cond key_exists None"
    then have False by (simp add: key_exists_def)
    then show "wf_item (set_attrs [(''type'', AvS ty), (''id'', AvS i)]
        [(''columns'', AvM (columnsToMap cols))])" ..
  qed
  then show ?thesis
    by (auto simp: UpdateColumns_def u storage_names split: sum.splits)
qed

lemma DeleteRow_wf:
  assumes "wf_table (items w)"
  shows "wf_table (items (snd (DeleteRow w ty ct i)))"
proof -
  obtain x wa where q: "ddb_Query w (typeParentQuery ct i) = (x, wa)"
    by (cases "ddb_Query w (typeParentQuery ct i)")
  have wa: "wf_table (items wa)" using ddb_Query_items[OF q] assms by simp
  have d: "wf_table (items (snd (ddb_DeleteItem v ty i key_exists)))"
    if "wf_table (items v)" for v
    using ddb_DeleteItem_wf[OF that, of ty i key_exists] by (cases "ddb_DeleteItem v ty i key_exists") simp
  show ?thesis
    using wa d[OF wa] d[OF assms]
    by (auto simp: DeleteRow_def q split: sum.splits option.splits)
qed


lemma CreateChild_failure:
  assumes "CreateChild w ty l pt pid cols = (Inl e, w1)"
  shows "items w1 = items w"
proof -
  obtain i wa where g: "Generate w ty = (i, wa)" by (cases "Generate w ty")
  then have wa: "items wa = items w" using Generate_world(1)[of w ty] by simp
  obtain x wb where p: "GetRowByID wa pt pid = (x, wb)" by (cases "GetRowByID wa pt pid")
  from GetRowByID_items[OF p] wa have wb: "items wb = items w" by simp
  obtain y wc where q: "ddb_Query wb (parentLabelQuery pid l) = (y, wc)"
    by (cases "ddb_Query wb (parentLabelQuery pid l)")
  from ddb_Query_items[OF q] wb have wc: "items wc = items w" by simp
  let ?it = "[(''type'', AvS ty), (''id'', AvS i), (''label'', AvS l),
              (''parent_id'', AvS pid), (''columns'', AvM (columnsToMap cols))]"
  obtain z wd where u: "ddb_PutItem wc ?it key_not_exists = (z, wd)"
    by (cases "ddb_PutItem wc ?it key_not_exists")
  have wd: "z \<noteq> None \<Longrightarrow> items wd = items w"
    using ddb_PutItem_failed[of wc ?it key_not_exists _ wd] u wc by auto
  from assms wb wc wd show ?thesis
    by (auto simp: CreateChild_def g p q u storage_names
        split: sum.splits option.splits if_splits)
qed

lemma UpdateColumns_unsupported:
  "\<not> supported_columns cols \<Longrightarrow> UpdateColumns w ty i cols = (Some ErrSerialization, w)"
  by (simp add: UpdateColumns_def ddb_UpdateItem_def serializable_attrs_def
      serializable_columnsToMap)

section \<open>The single-row getters\<close>

text \<open>
  C8. On a datastore that answers, \<^verbatim>\<open>GetRow\<close> and \<^verbatim>\<open>GetChild\<close> return a row exactly
  when their index query matches exactly one item. With no match they fail with an error
  that wraps \<open>ErrNotFoundRow\<close>; with more than one match they fail with an error that wraps
  \<open>ErrTooManyFound\<close> and pick none of the matches; with one match the result is that item,
  decoded. Neither changes the state.
\<close>

theorem GetRow_GetChild_one_match:
  assumes "faults w = []"
  shows
    "(typeLabelIndex (items w) ty l = [] \<longrightarrow>
        (\<exists>e. GetRow w ty l = (Inl e, w) \<and> errors_Is e ErrNotFoundRow)) \<and>
     (length (typeLabelIndex (items w) ty l) > 1 \<longrightarrow>
        (\<exists>e. GetRow w ty l = (Inl e, w) \<and> errors_Is e ErrTooManyFound)) \<and>
     (\<forall>it. typeLabelIndex (items w) ty l = [it] \<longrightarrow> GetRow w ty l = (itemToRow it, w)) \<and>
     (wf_table (items w) \<longrightarrow>
        ((\<exists>r. fst (GetRow w ty l) = Inr r) \<longleftrightarrow> length (typeLabelIndex (items w) ty l) = 1)) \<and>
     (parentLabelIndex (items w) p l = [] \<longrightarrow>
        (\<exists>e. GetChild w l p = (Inl e, w) \<and> errors_Is e ErrNotFoundRow)) \<and>
     (length (parentLabelIndex (items w) p l) > 1 \<longrightarrow>
        (\<exists>e. GetChild w l p = (Inl e, w) \<and> errors_Is e ErrTooManyFound)) \<and>
     (\<forall>it. parentLabelIndex (items w) p l = [it] \<longrightarrow> GetChild w l p = (itemToRow it, w)) \<and>
     (wf_table (items w) \<longrightarrow>
        ((\<exists>r. fst (GetChild w l p) = Inr r) \<longleftrightarrow> length (parentLabelIndex (items w) p l) = 1))"
proof -
  have R: "GetRow w ty l =
      (if typeLabelIndex (items w) ty l = [] then (Inl (ErrWrap ErrNotFoundRow [ty, l]), w)
       else if length (typeLabelIndex (items w) ty l) > 1
         then (Inl (ErrWrap ErrTooManyFound [ty, l]), w)
       else (itemToRow (typeLabelIndex (items w) ty l ! 0), w))"
    by (simp add: GetRow_def query_typeLabel[OF assms])
  have C: "GetChild w l p =
      (if parentLabelIndex (items w) p l = [] then (Inl (ErrWrap ErrNotFoundRow [p, l]), w)
       else if length (parentLabelIndex (items w) p l) > 1
         then (Inl (ErrWrap ErrTooManyFound [p, l]), w)
       else (itemToRow (parentLabelIndex (items w) p l ! 0), w))"
    by (simp add: GetChild_def query_parentLabel[OF assms])
  have dec: "\<exists>r. itemToRow (xs ! 0) = Inr r"
    if "wf_table (items w)" "set xs \<subseteq> set (items w)" "length xs = 1" for xs
  proof -
    from that(3) have "xs ! 0 \<in> set xs" by (intro nth_mem) simp
    with that(1,2) have "wf_item (xs ! 0)" by (auto simp: wf_table_def list_all_iff)
    then show ?thesis using wf_item_decodes by blast
  qed
  have one: "length xs = 1 \<longleftrightarrow> xs \<noteq> [] \<and> \<not> length xs > 1" for xs :: "item list"
    by (cases xs) auto
  have s1: "set (typeLabelIndex (items w) ty l) \<subseteq> set (items w)"
    by (auto simp: typeLabelIndex_def)
  have s2: "set (parentLabelIndex (items w) p l) \<subseteq> set (items w)"
    by (auto simp: parentLabelIndex_def)
  have a: "typeLabelIndex (items w) ty l = [] \<longrightarrow>
        (\<exists>e. GetRow w ty l = (Inl e, w) \<and> errors_Is e ErrNotFoundRow)"
    by (simp add: R)
  have b: "length (typeLabelIndex (items w) ty l) > 1 \<longrightarrow>
        (\<exists>e. GetRow w ty l = (Inl e, w) \<and> errors_Is e ErrTooManyFound)"
    by (auto simp add: R)
  have c: "\<forall>it. typeLabelIndex (items w) ty l = [it] \<longrightarrow> GetRow w ty l = (itemToRow it, w)"
    by (simp add: R)
  have d: "wf_table (items w) \<longrightarrow>
        ((\<exists>r. fst (GetRow w ty l) = Inr r) \<longleftrightarrow> length (typeLabelIndex (items w) ty l) = 1)"
    using dec[OF _ s1] unfolding one[of "typeLabelIndex (items w) ty l"]
    by (auto simp: R)
  have a': "parentLabelIndex (items w) p l = [] \<longrightarrow>
        (\<exists>e. GetChild w l p = (Inl e, w) \<and> errors_Is e ErrNotFoundRow)"
    by (simp add: C)
  have b': "length (parentLabelIndex (items w) p l) > 1 \<longrightarrow>
        (\<exists>e. GetChild w l p = (Inl e, w) \<and> errors_Is e ErrTooManyFound)"
    by (auto simp add: C)
  have c': "\<forall>it. parentLabelIndex (items w) p l = [it] \<longrightarrow> GetChild w l p = (itemToRow it, w)"
    by (simp add: C)
  have d': "wf_table (items w) \<longrightarrow>
        ((\<exists>r. fst (GetChild w l p) = Inr r) \<longleftrightarrow> length (parentLabelIndex (items w) p l) = 1)"
    using dec[OF _ s2] unfolding one[of "parentLabelIndex (items w) p l"]
    by (auto simp: C)
  from a b c d a' b' c' d' show ?thesis by blast
qed


theorem GetRow_GetChild_one_match_witness:
  "faults example_world = [] \<and> faults duplicate_world = [] \<and>
   wf_table (items example_world) \<and>
   typeLabelIndex (items example_world) ''organization'' ''nope'' = [] \<and>
   (\<exists>e. GetRow example_world ''organization'' ''nope'' = (Inl e, example_world)
        \<and> errors_Is e ErrNotFoundRow) \<and>
   length (typeLabelIndex (items duplicate_world) ''organization'' ''acme'') > 1 \<and>
   (\<exists>e. GetRow duplicate_world ''organization'' ''acme'' = (Inl e, duplicate_world)
        \<and> errors_Is e ErrTooManyFound) \<and>
   typeLabelIndex (items example_world) ''organization'' ''acme'' = [org_acme] \<and>
   GetRow example_world ''organization'' ''acme'' = (itemToRow org_acme, example_world) \<and>
   (\<exists>r. fst (GetRow example_world ''organization'' ''acme'') = Inr r) \<and>
   parentLabelIndex (items example_world) ''organization_a'' ''nope'' = [] \<and>
   (\<exists>e. GetChild example_world ''nope'' ''organization_a'' = (Inl e, example_world)
        \<and> errors_Is e ErrNotFoundRow) \<and>
   length (parentLabelIndex (items duplicate_world) ''organization_a'' ''product'') > 1 \<and>
   (\<exists>e. GetChild duplicate_world ''product'' ''organization_a'' = (Inl e, duplicate_world)
        \<and> errors_Is e ErrTooManyFound) \<and>
   parentLabelIndex (items example_world) ''organization_a'' ''product'' = [team_product] \<and>
   GetChild example_world ''product'' ''organization_a''
     = (itemToRow team_product, example_world) \<and>
   (\<exists>r. fst (GetChild example_world ''product'' ''organization_a'') = Inr r)"
proof -
  have f1: "faults example_world = []" and f2: "faults duplicate_world = []"
    by (simp_all add: example_defs)
  have wf: "wf_table (items example_world)"
    by (simp add: example_defs wf_table_def wf_item_def)
  have t0: "typeLabelIndex (items example_world) ''organization'' ''nope'' = []"
    and t1: "typeLabelIndex (items example_world) ''organization'' ''acme'' = [org_acme]"
    and t2: "length (typeLabelIndex (items duplicate_world) ''organization'' ''acme'') > 1"
    by (simp_all add: example_defs typeLabelIndex_def)
  have p0: "parentLabelIndex (items example_world) ''organization_a'' ''nope'' = []"
    and p1: "parentLabelIndex (items example_world) ''organization_a'' ''product''
               = [team_product]"
    and p2: "length (parentLabelIndex (items duplicate_world) ''organization_a'' ''product'')
               > 1"
    by (simp_all add: example_defs parentLabelIndex_def)
  note A = GetRow_GetChild_one_match[OF f1, of "''organization''" "''nope''"
      "''organization_a''"]
  note B = GetRow_GetChild_one_match[OF f2, of "''organization''" "''acme''"
      "''organization_a''"]
  note C = GetRow_GetChild_one_match[OF f1, of "''organization''" "''acme''"
      "''organization_a''"]
  note D = GetRow_GetChild_one_match[OF f2, of "''organization''" "''product''"
      "''organization_a''"]
  note E = GetRow_GetChild_one_match[OF f1, of "''organization''" "''product''"
      "''organization_a''"]
  have l1: "length (typeLabelIndex (items example_world) ''organization'' ''acme'') = 1"
    and l2: "length (parentLabelIndex (items example_world) ''organization_a'' ''product'')
               = 1"
    by (simp_all add: t1 p1)
  from A t0 p0 have a: "\<exists>e. GetRow example_world ''organization'' ''nope'' = (Inl e, example_world)
        \<and> errors_Is e ErrNotFoundRow"
    and a': "\<exists>e. GetChild example_world ''nope'' ''organization_a'' = (Inl e, example_world)
        \<and> errors_Is e ErrNotFoundRow" by blast+
  from B t2 have b: "\<exists>e. GetRow duplicate_world ''organization'' ''acme'' = (Inl e, duplicate_world)
        \<and> errors_Is e ErrTooManyFound" by blast
  from D p2 have b': "\<exists>e. GetChild duplicate_world ''product'' ''organization_a''
        = (Inl e, duplicate_world) \<and> errors_Is e ErrTooManyFound" by blast
  from C t1 wf l1 have c: "GetRow example_world ''organization'' ''acme''
        = (itemToRow org_acme, example_world)"
    and d: "\<exists>r. fst (GetRow example_world ''organization'' ''acme'') = Inr r" by blast+
  from E p1 wf l2 have c': "GetChild example_world ''product'' ''organization_a''
        = (itemToRow team_product, example_world)"
    and d': "\<exists>r. fst (GetChild example_world ''product'' ''organization_a'') = Inr r"
    by blast+
  from f1 f2 wf t0 t1 t2 p0 p1 p2 a a' b b' c c' d d' show ?thesis by blast
qed

section \<open>Creating a root row\<close>

text \<open>
  C2. On a datastore that answers, \<^verbatim>\<open>CreateRow\<close> first looks the pair (type, label) up
  in the type/label index. If there is a match it fails with \<open>ErrCollisionTypeLabel\<close> and
  the state is unchanged. Otherwise it generates the identifier \<open>type_\<close> followed by ten
  letters and puts the item with that type, identifier and label under the condition that
  the key is not taken: when it is free the item is appended and the row returned, when it
  is taken the put fails its condition check and the table is unchanged. A second
  \<^verbatim>\<open>CreateRow\<close> with the same type and label right after a successful one fails with
  \<open>ErrCollisionTypeLabel\<close> and leaves the state, and so the first row, as it was.
\<close>

theorem CreateRow_checks_label_then_puts:
  assumes "faults w = []"
  shows
    "(typeLabelIndex (items w) ty l \<noteq> [] \<longrightarrow>
        CreateRow w ty l = (Inl ErrCollisionTypeLabel, w)) \<and>
     (\<exists>sfx. fst (Generate w ty) = ty @ ''_'' @ sfx \<and> length sfx = 10
           \<and> set sfx \<subseteq> set letters) \<and>
     (typeLabelIndex (items w) ty l = []
        \<and> \<not> row_exists (items w) ty (fst (Generate w ty)) \<longrightarrow>
        CreateRow w ty l =
          (Inr \<lparr>RowType = ty, RowID = fst (Generate w ty), RowLabel = l,
                RowParentID = [], RowColumns = None\<rparr>,
           (snd (Generate w ty))
             \<lparr>items := items w @
                [[(''type'', AvS ty), (''id'', AvS (fst (Generate w ty))),
                  (''label'', AvS l)]]\<rparr>)) \<and>
     (typeLabelIndex (items w) ty l = []
        \<and> row_exists (items w) ty (fst (Generate w ty)) \<longrightarrow>
        CreateRow w ty l = (Inl ErrConditionalCheckFailed, snd (Generate w ty))) \<and>
     (\<forall>r w1. CreateRow w ty l = (Inr r, w1) \<longrightarrow>
        CreateRow w1 ty l = (Inl ErrCollisionTypeLabel, w1))"
proof -
  have a: "typeLabelIndex (items w) ty l \<noteq> [] \<longrightarrow>
        CreateRow w ty l = (Inl ErrCollisionTypeLabel, w)"
    by (simp add: CreateRow_def query_typeLabel[OF assms])
  have b: "\<exists>sfx. fst (Generate w ty) = ty @ ''_'' @ sfx \<and> length sfx = 10
           \<and> set sfx \<subseteq> set letters"
    using Generate_shape[of w ty] by auto
  obtain i w' where g: "Generate w ty = (i, w')" by (cases "Generate w ty")
  have f: "faults w' = []" and it: "items w' = items w"
    using Generate_world[of w ty] assms g by simp_all
  have put: "typeLabelIndex (items w) ty l = [] \<Longrightarrow> CreateRow w ty l =
      (if row_exists (items w) ty i then (Inl ErrConditionalCheckFailed, w')
       else (Inr \<lparr>RowType = ty, RowID = i, RowLabel = l, RowParentID = [],
                  RowColumns = None\<rparr>,
             w'\<lparr>items := items w @ [[(''type'', AvS ty), (''id'', AvS i),
                                        (''label'', AvS l)]]\<rparr>))"
    by (simp add: CreateRow_def query_typeLabel[OF assms] g storage_names
        ddb_PutItem_reliable[OF f item_key_root serializable_root] it)
  have c: "typeLabelIndex (items w) ty l = []
        \<and> \<not> row_exists (items w) ty (fst (Generate w ty)) \<longrightarrow>
        CreateRow w ty l =
          (Inr \<lparr>RowType = ty, RowID = fst (Generate w ty), RowLabel = l,
                RowParentID = [], RowColumns = None\<rparr>,
           (snd (Generate w ty))
             \<lparr>items := items w @
                [[(''type'', AvS ty), (''id'', AvS (fst (Generate w ty))),
                  (''label'', AvS l)]]\<rparr>)"
    using put by (simp add: g)
  have d: "typeLabelIndex (items w) ty l = []
        \<and> row_exists (items w) ty (fst (Generate w ty)) \<longrightarrow>
        CreateRow w ty l = (Inl ErrConditionalCheckFailed, snd (Generate w ty))"
    using put by (simp add: g)
  have e: "CreateRow w1 ty l = (Inl ErrCollisionTypeLabel, w1)"
    if s: "CreateRow w ty l = (Inr r, w1)" for r w1
  proof -
    from CreateRow_success[OF s] have e: "typeLabelIndex (items w) ty l = []"
      and n: "typeLabelIndex (items w1) ty l \<noteq> []"
      by (simp_all add: typeLabelIndex_append) (simp add: typeLabelIndex_def)
    from s put[OF e] f have "faults w1 = []" by (auto split: if_splits)
    with n show ?thesis by (simp add: CreateRow_def query_typeLabel)
  qed
  from a b c d e show ?thesis by blast
qed

theorem CreateRow_checks_label_then_puts_witness:
  "faults example_world = [] \<and> faults empty_world = [] \<and> faults collision_world = [] \<and>
   typeLabelIndex (items example_world) ''organization'' ''acme'' \<noteq> [] \<and>
   CreateRow example_world ''organization'' ''acme'' = (Inl ErrCollisionTypeLabel, example_world) \<and>
   typeLabelIndex (items empty_world) ''organization'' ''acme'' = [] \<and>
   \<not> row_exists (items empty_world) ''organization''
       (fst (Generate empty_world ''organization'')) \<and>
   CreateRow empty_world ''organization'' ''acme'' =
     (Inr \<lparr>RowType = ''organization'', RowID = fst (Generate empty_world ''organization''),
           RowLabel = ''acme'', RowParentID = [], RowColumns = None\<rparr>,
      (snd (Generate empty_world ''organization''))
         \<lparr>items := items empty_world @
            [[(''type'', AvS ''organization''),
              (''id'', AvS (fst (Generate empty_world ''organization''))),
              (''label'', AvS ''acme'')]]\<rparr>) \<and>
   typeLabelIndex (items collision_world) ''organization'' ''acme'' = [] \<and>
   row_exists (items collision_world) ''organization''
       (fst (Generate collision_world ''organization'')) \<and>
   CreateRow collision_world ''organization'' ''acme'' =
     (Inl ErrConditionalCheckFailed, snd (Generate collision_world ''organization'')) \<and>
   CreateRow
     ((snd (Generate empty_world ''organization''))
         \<lparr>items := items empty_world @
            [[(''type'', AvS ''organization''),
              (''id'', AvS (fst (Generate empty_world ''organization''))),
              (''label'', AvS ''acme'')]]\<rparr>) ''organization'' ''acme''
    = (Inl ErrCollisionTypeLabel,
       (snd (Generate empty_world ''organization''))
         \<lparr>items := items empty_world @
            [[(''type'', AvS ''organization''),
              (''id'', AvS (fst (Generate empty_world ''organization''))),
              (''label'', AvS ''acme'')]]\<rparr>)"
proof -
  have f: "faults example_world = []" "faults empty_world = []" "faults collision_world = []"
    by (simp_all add: example_defs collision_world_def)
  have g1: "fst (Generate empty_world ''organization'') = ''organization_abcdefghij''"
    and g2: "fst (Generate collision_world ''organization'') = ''organization_abcdefghij''"
    by (simp_all add: Generate_from_start empty_world_def collision_world_def)
  have i1: "typeLabelIndex (items example_world) ''organization'' ''acme'' \<noteq> []"
    and i2: "typeLabelIndex (items empty_world) ''organization'' ''acme'' = []"
    and i3: "typeLabelIndex (items collision_world) ''organization'' ''acme'' = []"
    by (simp_all add: example_defs collision_world_def typeLabelIndex_def)
  have r2: "\<not> row_exists (items empty_world) ''organization''
       (fst (Generate empty_world ''organization''))"
    by (simp add: empty_world_def row_exists_def)
  have r3: "row_exists (items collision_world) ''organization''
       (fst (Generate collision_world ''organization''))"
    unfolding g2 by (simp add: collision_world_def row_exists_def has_key_def)
  note A = CreateRow_checks_label_then_puts[OF f(1), of "''organization''" "''acme''"]
  note B = CreateRow_checks_label_then_puts[OF f(2), of "''organization''" "''acme''"]
  note C = CreateRow_checks_label_then_puts[OF f(3), of "''organization''" "''acme''"]
  from A i1 have a: "CreateRow example_world ''organization'' ''acme''
      = (Inl ErrCollisionTypeLabel, example_world)" by blast
  from B i2 r2 have b: "CreateRow empty_world ''organization'' ''acme'' =
     (Inr \<lparr>RowType = ''organization'', RowID = fst (Generate empty_world ''organization''),
           RowLabel = ''acme'', RowParentID = [], RowColumns = None\<rparr>,
      (snd (Generate empty_world ''organization''))
         \<lparr>items := items empty_world @
            [[(''type'', AvS ''organization''),
              (''id'', AvS (fst (Generate empty_world ''organization''))),
              (''label'', AvS ''acme'')]]\<rparr>)" by blast
  from C i3 r3 have c: "CreateRow collision_world ''organization'' ''acme'' =
     (Inl ErrConditionalCheckFailed, snd (Generate collision_world ''organization''))"
    by blast
  from B b have d: "CreateRow
     ((snd (Generate empty_world ''organization''))
         \<lparr>items := items empty_world @
            [[(''type'', AvS ''organization''),
              (''id'', AvS (fst (Generate empty_world ''organization''))),
              (''label'', AvS ''acme'')]]\<rparr>) ''organization'' ''acme''
    = (Inl ErrCollisionTypeLabel,
       (snd (Generate empty_world ''organization''))
         \<lparr>items := items empty_world @
            [[(''type'', AvS ''organization''),
              (''id'', AvS (fst (Generate empty_world ''organization''))),
              (''label'', AvS ''acme'')]]\<rparr>)" by blast
  from f i1 i2 i3 r2 r3 a b c d show ?thesis by blast
qed


text \<open>
  C7. If \<^verbatim>\<open>CreateRow\<close> succeeds and returns a row, \<^verbatim>\<open>GetRow\<close> with the same type and
  label, called in the state \<^verbatim>\<open>CreateRow\<close> left and answered by the datastore, succeeds
  and returns a row with the same identifier.
\<close>

theorem CreateRow_then_GetRow:
  assumes "CreateRow w ty l = (Inr r, w1)" and "faults w1 = []"
  shows "\<exists>r'. GetRow w1 ty l = (Inr r', w1) \<and> RowID r' = RowID r"
proof -
  from CreateRow_success[OF assms(1)]
  have "typeLabelIndex (items w1) ty l = [[(''type'', AvS ty), (''id'', AvS (RowID r)), (''label'', AvS l)]]"
    by (simp add: typeLabelIndex_append) (simp add: typeLabelIndex_def)
  then show ?thesis
    by (simp add: GetRow_def query_typeLabel[OF assms(2)] itemToRow_root)
qed

theorem CreateRow_then_GetRow_witness:
  "CreateRow empty_world ''organization'' ''acme'' =
     (Inr \<lparr>RowType = ''organization'', RowID = ''organization_abcdefghij'',
           RowLabel = ''acme'', RowParentID = [], RowColumns = None\<rparr>,
      snd (CreateRow empty_world ''organization'' ''acme'')) \<and>
   faults (snd (CreateRow empty_world ''organization'' ''acme'')) = [] \<and>
   (\<exists>r'. GetRow (snd (CreateRow empty_world ''organization'' ''acme''))
            ''organization'' ''acme''
          = (Inr r', snd (CreateRow empty_world ''organization'' ''acme'')) \<and>
        RowID r' = RowID \<lparr>RowType = ''organization'', RowID = ''organization_abcdefghij'',
           RowLabel = ''acme'', RowParentID = [], RowColumns = None\<rparr>)"
proof -
  have "fst (CreateRow empty_world ''organization'' ''acme'') =
      Inr \<lparr>RowType = ''organization'', RowID = ''organization_abcdefghij'',
           RowLabel = ''acme'', RowParentID = [], RowColumns = None\<rparr>"
    by code_simp
  then have c: "CreateRow empty_world ''organization'' ''acme'' =
     (Inr \<lparr>RowType = ''organization'', RowID = ''organization_abcdefghij'',
           RowLabel = ''acme'', RowParentID = [], RowColumns = None\<rparr>,
      snd (CreateRow empty_world ''organization'' ''acme''))"
    by (simp add: prod_eq_iff)
  have f: "faults (snd (CreateRow empty_world ''organization'' ''acme'')) = []"
    by code_simp
  from CreateRow_then_GetRow[OF c f] c f show ?thesis by blast
qed

section \<open>Creating a child row\<close>

text \<open>
  C3, as the claim states it, fails on a columns value that is neither a string nor a set
  of strings: with the parent present and no label taken under it, \<^verbatim>\<open>CreateChild\<close> with
  the column \<open>replicas = 5\<close> does not write an item. The conversion leaves a nil attribute
  value in the map, the put cannot be serialized, and the call fails with that error.
\<close>

theorem CreateChild_unsupported_column_counterexample:
  "row_exists (items example_world) ''organization'' ''organization_a'' \<and>
   parentLabelIndex (items example_world) ''organization_a'' ''marketing'' = [] \<and>
   fst (CreateChild example_world ''team'' ''marketing'' ''organization'' ''organization_a''
          (Some [(''replicas'', IInt 5)])) = Inl ErrSerialization \<and>
   items (snd (CreateChild example_world ''team'' ''marketing'' ''organization''
          ''organization_a'' (Some [(''replicas'', IInt 5)]))) = items example_world"
proof -
  have a: "row_exists (items example_world) ''organization'' ''organization_a''"
    by code_simp
  have b: "parentLabelIndex (items example_world) ''organization_a'' ''marketing'' = []"
    by code_simp
  have c: "fst (CreateChild example_world ''team'' ''marketing'' ''organization''
          ''organization_a'' (Some [(''replicas'', IInt 5)])) = Inl ErrSerialization"
    by code_simp
  have d: "items (snd (CreateChild example_world ''team'' ''marketing'' ''organization''
          ''organization_a'' (Some [(''replicas'', IInt 5)]))) = items example_world"
    by code_simp
  from a b c d show ?thesis by blast
qed

text \<open>
  C3, amended. On a datastore that answers, \<^verbatim>\<open>CreateChild\<close> fails with an error that
  wraps \<open>ErrNotFoundRow\<close> when no item has the key (parentType, parentID). On a table of
  well-formed items it fails with \<open>ErrCollisionParentLabel\<close> when the parent exists and
  some item, of whatever type, carries that parent identifier and that label. In both
  cases the table is what it was. Otherwise, when every columns value is a string or a set
  of strings, it puts the new item under the condition that the generated key is not
  taken: when it is free the item appended carries \<open>parent_id\<close> and, under \<open>columns\<close>, one
  member for each column, in order, a string stored as an \<^verbatim>\<open>S\<close> and a set of strings as
  an \<^verbatim>\<open>SS\<close>, and the row is returned; when the key is taken the put fails its condition
  check and nothing is written. When some columns value is of another kind the call fails
  with the serialization error and nothing is written.
\<close>

theorem CreateChild_checks_parent_and_label:
  assumes "faults w = []"
  shows
    "items (snd (Generate w ty)) = items w \<and>
     (\<not> row_exists (items w) pt pid \<longrightarrow>
        (\<exists>e. CreateChild w ty l pt pid cols = (Inl e, snd (Generate w ty))
             \<and> errors_Is e ErrNotFoundRow)) \<and>
     (wf_table (items w) \<and> row_exists (items w) pt pid \<and>
      (\<exists>it\<in>set (items w). map_of it ''parent_id'' = Some (AvS pid)
                            \<and> map_of it ''label'' = Some (AvS l)) \<longrightarrow>
        CreateChild w ty l pt pid cols = (Inl ErrCollisionParentLabel, snd (Generate w ty))) \<and>
     (wf_table (items w) \<and> row_exists (items w) pt pid \<and>
      \<not> (\<exists>it\<in>set (items w). map_of it ''parent_id'' = Some (AvS pid)
                              \<and> map_of it ''label'' = Some (AvS l)) \<and>
      supported_columns cols \<and>
      \<not> row_exists (items w) ty (fst (Generate w ty)) \<longrightarrow>
        (\<exists>m. columns_stored_as cols m \<and>
           CreateChild w ty l pt pid cols =
             (Inr \<lparr>RowType = ty, RowID = fst (Generate w ty), RowLabel = l,
                   RowParentID = pid, RowColumns = cols\<rparr>,
              (snd (Generate w ty))
                \<lparr>items := items w @
                   [[(''type'', AvS ty), (''id'', AvS (fst (Generate w ty))),
                     (''label'', AvS l), (''parent_id'', AvS pid),
                     (''columns'', AvM m)]]\<rparr>))) \<and>
     (wf_table (items w) \<and> row_exists (items w) pt pid \<and>
      \<not> (\<exists>it\<in>set (items w). map_of it ''parent_id'' = Some (AvS pid)
                              \<and> map_of it ''label'' = Some (AvS l)) \<and>
      supported_columns cols \<and>
      row_exists (items w) ty (fst (Generate w ty)) \<longrightarrow>
        CreateChild w ty l pt pid cols
          = (Inl ErrConditionalCheckFailed, snd (Generate w ty))) \<and>
     (wf_table (items w) \<and> row_exists (items w) pt pid \<and>
      \<not> (\<exists>it\<in>set (items w). map_of it ''parent_id'' = Some (AvS pid)
                              \<and> map_of it ''label'' = Some (AvS l)) \<and>
      \<not> supported_columns cols \<longrightarrow>
        CreateChild w ty l pt pid cols = (Inl ErrSerialization, snd (Generate w ty)))"
proof -
  obtain i w' where g: "Generate w ty = (i, w')" by (cases "Generate w ty")
  have f: "faults w' = []" and it: "items w' = items w"
    using Generate_world[of w ty] assms(1) g by simp_all
  have a: "\<exists>e. CreateChild w ty l pt pid cols = (Inl e, w') \<and> errors_Is e ErrNotFoundRow"
    if "\<not> row_exists (items w) pt pid"
    using that GetRowByID_missing[OF f, of pt pid]
    by (simp add: CreateChild_def g it)
  let ?it = "[(''type'', AvS ty), (''id'', AvS i), (''label'', AvS l),
              (''parent_id'', AvS pid), (''columns'', AvM (columnsToMap cols))]"
  have rest: "CreateChild w ty l pt pid cols =
      (if parentLabelIndex (items w) pid l \<noteq> [] then (Inl ErrCollisionParentLabel, w')
       else if \<not> supported_columns cols then (Inl ErrSerialization, w')
       else if row_exists (items w) ty i then (Inl ErrConditionalCheckFailed, w')
       else (Inr \<lparr>RowType = ty, RowID = i, RowLabel = l, RowParentID = pid,
                  RowColumns = cols\<rparr>,
             w'\<lparr>items := items w @ [?it]\<rparr>))"
    if wfw: "wf_table (items w)" and p: "row_exists (items w) pt pid"
  proof -
    have wf: "wf_table (items w')" using wfw it by simp
    from GetRowByID_present[OF f wf, of pt pid] p it obtain r where
      r: "GetRowByID w' pt pid = (Inr r, w')" "RowID r = pid" by auto
    show ?thesis
    proof (cases "supported_columns cols")
      case True
      then have "serializable_attrs ?it"
        by (simp add: serializable_child serializable_columnsToMap)
      from ddb_PutItem_reliable[OF f item_key_child this] show ?thesis
        by (simp add: CreateChild_def g r query_parentLabel[OF f] it storage_names True)
    next
      case False
      then have "\<not> serializable_attrs ?it"
        by (simp add: serializable_child serializable_columnsToMap)
      from ddb_PutItem_unserializable[OF this, of w' key_not_exists] show ?thesis
        by (simp add: CreateChild_def g r query_parentLabel[OF f] it storage_names False)
    qed
  qed
  have st: "supported_columns cols \<Longrightarrow> columns_stored_as cols (columnsToMap cols)"
    by (rule columnsToMap_stored_as)
  from a rest st show ?thesis
    unfolding g by (auto simp: it parentLabelIndex_empty)
qed

theorem CreateChild_checks_parent_and_label_witness:
  "faults example_world = [] \<and> wf_table (items example_world) \<and>
   faults collision_world = [] \<and> wf_table (items collision_world) \<and>
   \<not> row_exists (items example_world) ''organization'' ''organization_zzz'' \<and>
   (\<exists>e. CreateChild example_world ''team'' ''marketing'' ''organization''
           ''organization_zzz'' None = (Inl e, snd (Generate example_world ''team''))
        \<and> errors_Is e ErrNotFoundRow) \<and>
   items (snd (Generate example_world ''team'')) = items example_world \<and>
   row_exists (items example_world) ''organization'' ''organization_a'' \<and>
   (\<exists>it\<in>set (items example_world). map_of it ''parent_id'' = Some (AvS ''organization_a'')
        \<and> map_of it ''label'' = Some (AvS ''product'')) \<and>
   CreateChild example_world ''environment'' ''product'' ''organization'' ''organization_a''
       None = (Inl ErrCollisionParentLabel, snd (Generate example_world ''environment'')) \<and>
   \<not> (\<exists>it\<in>set (items example_world). map_of it ''parent_id'' = Some (AvS ''organization_a'')
        \<and> map_of it ''label'' = Some (AvS ''marketing'')) \<and>
   supported_columns
     (Some [(''owner'', IString ''bob''), (''tags'', IStringList [''blue'', ''green''])]) \<and>
   \<not> row_exists (items example_world) ''team'' (fst (Generate example_world ''team'')) \<and>
   CreateChild example_world ''team'' ''marketing'' ''organization'' ''organization_a''
       (Some [(''owner'', IString ''bob''), (''tags'', IStringList [''blue'', ''green''])]) =
     (Inr \<lparr>RowType = ''team'', RowID = fst (Generate example_world ''team''),
           RowLabel = ''marketing'', RowParentID = ''organization_a'',
           RowColumns = Some [(''owner'', IString ''bob''),
                              (''tags'', IStringList [''blue'', ''green''])]\<rparr>,
      (snd (Generate example_world ''team''))
        \<lparr>items := items example_world @
           [[(''type'', AvS ''team''), (''id'', AvS (fst (Generate example_world ''team''))),
             (''label'', AvS ''marketing''), (''parent_id'', AvS ''organization_a''),
             (''columns'', AvM [(''owner'', Some (AvS ''bob'')),
                               (''tags'', Some (AvSS [''blue'', ''green'']))])]]\<rparr>) \<and>
   row_exists (items collision_world) ''organization'' ''organization_abcdefghij'' \<and>
   \<not> (\<exists>it\<in>set (items collision_world).
         map_of it ''parent_id'' = Some (AvS ''organization_abcdefghij'')
         \<and> map_of it ''label'' = Some (AvS ''branch'')) \<and>
   supported_columns None \<and>
   row_exists (items collision_world) ''organization''
     (fst (Generate collision_world ''organization'')) \<and>
   CreateChild collision_world ''organization'' ''branch'' ''organization''
       ''organization_abcdefghij'' None
     = (Inl ErrConditionalCheckFailed, snd (Generate collision_world ''organization'')) \<and>
   \<not> supported_columns (Some [(''owner'', IString ''bob''), (''replicas'', IInt 5)]) \<and>
   CreateChild example_world ''team'' ''marketing'' ''organization'' ''organization_a''
       (Some [(''owner'', IString ''bob''), (''replicas'', IInt 5)])
     = (Inl ErrSerialization, snd (Generate example_world ''team''))"
proof -
  let ?cols = "Some [(''owner'', IString ''bob''), (''tags'', IStringList [''blue'', ''green''])]"
  let ?bad = "Some [(''owner'', IString ''bob''), (''replicas'', IInt 5)]"
  have f: "faults example_world = []" "faults collision_world = []"
    by (simp_all add: example_defs collision_world_def)
  have wf: "wf_table (items example_world)" "wf_table (items collision_world)"
    by (simp_all add: example_defs collision_world_def wf_table_def wf_item_def)
  have g: "fst (Generate example_world ''team'') = ''team_abcdefghij''"
    "fst (Generate collision_world ''organization'') = ''organization_abcdefghij''"
    by (simp_all add: Generate_from_start example_defs collision_world_def)
  have n1: "\<not> row_exists (items example_world) ''organization'' ''organization_zzz''"
    and p1: "row_exists (items example_world) ''organization'' ''organization_a''"
    and n2: "\<not> row_exists (items example_world) ''team'' (fst (Generate example_world ''team''))"
    and p2: "row_exists (items collision_world) ''organization'' ''organization_abcdefghij''"
    and p3: "row_exists (items collision_world) ''organization''
               (fst (Generate collision_world ''organization''))"
    unfolding g by (simp_all add: example_defs collision_world_def row_exists_def has_key_def)
  have s1: "\<exists>it\<in>set (items example_world). map_of it ''parent_id'' = Some (AvS ''organization_a'')
        \<and> map_of it ''label'' = Some (AvS ''product'')"
    and s2: "\<not> (\<exists>it\<in>set (items example_world).
        map_of it ''parent_id'' = Some (AvS ''organization_a'')
        \<and> map_of it ''label'' = Some (AvS ''marketing''))"
    and s3: "\<not> (\<exists>it\<in>set (items collision_world).
         map_of it ''parent_id'' = Some (AvS ''organization_abcdefghij'')
         \<and> map_of it ''label'' = Some (AvS ''branch''))"
    by (simp_all add: example_defs collision_world_def)
  have k1: "supported_columns ?cols" and k2: "supported_columns None"
    and k3: "\<not> supported_columns ?bad"
    by (simp_all add: supported_columns_def)
  have m: "m = [(''owner'', Some (AvS ''bob'')), (''tags'', Some (AvSS [''blue'', ''green'']))]"
    if "columns_stored_as ?cols m" for m
    using that by (auto simp: columns_stored_as_def list_all2_Cons1 prod_eq_iff)
  note A = CreateChild_checks_parent_and_label[OF f(1), of "''team''"
      "''organization''" "''organization_zzz''" "''marketing''" None]
  note B = CreateChild_checks_parent_and_label[OF f(1), of "''environment''"
      "''organization''" "''organization_a''" "''product''" None]
  note C = CreateChild_checks_parent_and_label[OF f(1), of "''team''"
      "''organization''" "''organization_a''" "''marketing''" ?cols]
  note D = CreateChild_checks_parent_and_label[OF f(2), of "''organization''"
      "''organization''" "''organization_abcdefghij''" "''branch''" None]
  note E = CreateChild_checks_parent_and_label[OF f(1), of "''team''"
      "''organization''" "''organization_a''" "''marketing''" ?bad]
  from A n1 have a: "\<exists>e. CreateChild example_world ''team'' ''marketing'' ''organization''
           ''organization_zzz'' None = (Inl e, snd (Generate example_world ''team''))
        \<and> errors_Is e ErrNotFoundRow"
    and a': "items (snd (Generate example_world ''team'')) = items example_world" by blast+
  from B wf p1 s1 have b: "CreateChild example_world ''environment'' ''product''
       ''organization'' ''organization_a'' None
     = (Inl ErrCollisionParentLabel, snd (Generate example_world ''environment''))" by blast
  from C wf p1 s2 k1 n2 obtain m where "columns_stored_as ?cols m"
    and "CreateChild example_world ''team'' ''marketing'' ''organization''
       ''organization_a'' ?cols =
     (Inr \<lparr>RowType = ''team'', RowID = fst (Generate example_world ''team''),
           RowLabel = ''marketing'', RowParentID = ''organization_a'',
           RowColumns = ?cols\<rparr>,
      (snd (Generate example_world ''team''))
        \<lparr>items := items example_world @
           [[(''type'', AvS ''team''), (''id'', AvS (fst (Generate example_world ''team''))),
             (''label'', AvS ''marketing''), (''parent_id'', AvS ''organization_a''),
             (''columns'', AvM m)]]\<rparr>)"
    by blast
  with m[of m] have c: "CreateChild example_world ''team'' ''marketing'' ''organization''
       ''organization_a'' ?cols =
     (Inr \<lparr>RowType = ''team'', RowID = fst (Generate example_world ''team''),
           RowLabel = ''marketing'', RowParentID = ''organization_a'',
           RowColumns = ?cols\<rparr>,
      (snd (Generate example_world ''team''))
        \<lparr>items := items example_world @
           [[(''type'', AvS ''team''), (''id'', AvS (fst (Generate example_world ''team''))),
             (''label'', AvS ''marketing''), (''parent_id'', AvS ''organization_a''),
             (''columns'', AvM [(''owner'', Some (AvS ''bob'')),
                               (''tags'', Some (AvSS [''blue'', ''green'']))])]]\<rparr>)"
    by blast
  from D wf p2 s3 k2 p3 have d: "CreateChild collision_world ''organization'' ''branch''
       ''organization'' ''organization_abcdefghij'' None
     = (Inl ErrConditionalCheckFailed, snd (Generate collision_world ''organization''))"
    by blast
  from E wf p1 s2 k3 have e: "CreateChild example_world ''team'' ''marketing''
       ''organization'' ''organization_a'' ?bad
     = (Inl ErrSerialization, snd (Generate example_world ''team''))"
    by blast
  from f wf n1 p1 n2 p2 p3 s1 s2 s3 k1 k2 k3 a a' b c d e show ?thesis by blast
qed

section \<open>Deleting a row\<close>

text \<open>
  C4. On a datastore that answers, \<^verbatim>\<open>DeleteRow\<close> with a non-empty child type fails with
  an error that wraps \<open>ErrCannotDeleteRow\<close>, leaving the state unchanged, when some item of
  that type has the row's identifier as its \<open>parent_id\<close>. When there is no such item, or the
  child type is empty, the delete is conditional on the key: on a missing row it fails its
  condition check (an error, and nothing changes); on an existing row it removes the item,
  and \<^verbatim>\<open>GetRowByID\<close> on that key then fails with an error that wraps \<open>ErrNotFoundRow\<close>.
\<close>

theorem DeleteRow_guards:
  assumes "faults w = []"
  shows
    "(ct \<noteq> [] \<and> (\<exists>it\<in>set (items w). map_of it ''type'' = Some (AvS ct)
                      \<and> map_of it ''parent_id'' = Some (AvS i)) \<longrightarrow>
        (\<exists>e. DeleteRow w ty ct i = (Some e, w) \<and> errors_Is e ErrCannotDeleteRow)) \<and>
     ((ct = [] \<or> \<not> (\<exists>it\<in>set (items w). map_of it ''type'' = Some (AvS ct)
                      \<and> map_of it ''parent_id'' = Some (AvS i))) \<and>
      \<not> row_exists (items w) ty i \<longrightarrow>
        DeleteRow w ty ct i = (Some ErrConditionalCheckFailed, w)) \<and>
     ((ct = [] \<or> \<not> (\<exists>it\<in>set (items w). map_of it ''type'' = Some (AvS ct)
                      \<and> map_of it ''parent_id'' = Some (AvS i))) \<and>
      row_exists (items w) ty i \<longrightarrow>
        DeleteRow w ty ct i = (None, w\<lparr>items := [it \<leftarrow> items w. \<not> has_key ty i it]\<rparr>) \<and>
        (\<exists>e. fst (GetRowByID (snd (DeleteRow w ty ct i)) ty i) = Inl e
             \<and> errors_Is e ErrNotFoundRow))"
proof -
  have D: "DeleteRow w ty ct i =
     (if ct \<noteq> [] \<and> typeParentIndex (items w) ct i \<noteq> []
      then (Some (ErrWrap ErrCannotDeleteRow [ty, i]), w)
      else if row_exists (items w) ty i
      then (None, w\<lparr>items := [it \<leftarrow> items w. \<not> has_key ty i it]\<rparr>)
      else (Some ErrConditionalCheckFailed, w))"
    by (simp add: DeleteRow_def query_typeParent[OF assms] ddb_DeleteItem_reliable[OF assms])
  have gone: "\<not> row_exists [it \<leftarrow> items w. \<not> has_key ty i it] ty i"
    by (simp add: row_exists_def list_ex_iff)
  have G: "GetRowByID (w\<lparr>items := [it \<leftarrow> items w. \<not> has_key ty i it]\<rparr>) ty i
      = (Inl (ErrWrap ErrNotFoundRow [i]), w\<lparr>items := [it \<leftarrow> items w. \<not> has_key ty i it]\<rparr>)"
    using gone assms by (intro GetRowByID_missing) simp_all
  show ?thesis
    unfolding D typeParentIndex_empty using G by auto
qed


theorem DeleteRow_guards_witness:
  "faults example_world = [] \<and>
   ''team'' \<noteq> [] \<and>
   (\<exists>it\<in>set (items example_world). map_of it ''type'' = Some (AvS ''team'')
        \<and> map_of it ''parent_id'' = Some (AvS ''organization_a'')) \<and>
   (\<exists>e. DeleteRow example_world ''organization'' ''team'' ''organization_a''
           = (Some e, example_world) \<and> errors_Is e ErrCannotDeleteRow) \<and>
   \<not> row_exists (items example_world) ''team'' ''team_zzz'' \<and>
   DeleteRow example_world ''team'' [] ''team_zzz''
     = (Some ErrConditionalCheckFailed, example_world) \<and>
   \<not> (\<exists>it\<in>set (items example_world). map_of it ''type'' = Some (AvS ''environment'')
        \<and> map_of it ''parent_id'' = Some (AvS ''team_p'')) \<and>
   row_exists (items example_world) ''team'' ''team_p'' \<and>
   DeleteRow example_world ''team'' ''environment'' ''team_p''
     = (None, example_world\<lparr>items := [it \<leftarrow> items example_world.
                                          \<not> has_key ''team'' ''team_p'' it]\<rparr>) \<and>
   (\<exists>e. fst (GetRowByID (snd (DeleteRow example_world ''team'' ''environment'' ''team_p''))
               ''team'' ''team_p'') = Inl e \<and> errors_Is e ErrNotFoundRow) \<and>
   DeleteRow example_world ''team'' [] ''team_p''
     = (None, example_world\<lparr>items := [it \<leftarrow> items example_world.
                                          \<not> has_key ''team'' ''team_p'' it]\<rparr>)"
proof -
  have f: "faults example_world = []" by (simp add: example_defs)
  have t: "''team'' \<noteq> []" by simp
  have s1: "\<exists>it\<in>set (items example_world). map_of it ''type'' = Some (AvS ''team'')
        \<and> map_of it ''parent_id'' = Some (AvS ''organization_a'')"
    and s2: "\<not> (\<exists>it\<in>set (items example_world). map_of it ''type'' = Some (AvS ''environment'')
        \<and> map_of it ''parent_id'' = Some (AvS ''team_p''))"
    by (simp_all add: example_defs)
  have n: "\<not> row_exists (items example_world) ''team'' ''team_zzz''"
    and p: "row_exists (items example_world) ''team'' ''team_p''"
    by (simp_all add: example_defs row_exists_def has_key_def)
  note A = DeleteRow_guards[OF f, of "''team''" "''organization_a''" "''organization''"]
  note B = DeleteRow_guards[OF f, of "[]" "''team_zzz''" "''team''"]
  note C = DeleteRow_guards[OF f, of "''environment''" "''team_p''" "''team''"]
  note D = DeleteRow_guards[OF f, of "[]" "''team_p''" "''team''"]
  from A t s1 have a: "\<exists>e. DeleteRow example_world ''organization'' ''team'' ''organization_a''
           = (Some e, example_world) \<and> errors_Is e ErrCannotDeleteRow" by blast
  from B n have b: "DeleteRow example_world ''team'' [] ''team_zzz''
     = (Some ErrConditionalCheckFailed, example_world)" by blast
  from C s2 p have c: "DeleteRow example_world ''team'' ''environment'' ''team_p''
     = (None, example_world\<lparr>items := [it \<leftarrow> items example_world.
                                          \<not> has_key ''team'' ''team_p'' it]\<rparr>)"
    and c': "\<exists>e. fst (GetRowByID (snd (DeleteRow example_world ''team'' ''environment''
               ''team_p'')) ''team'' ''team_p'') = Inl e \<and> errors_Is e ErrNotFoundRow"
    by blast+
  from D p have d: "DeleteRow example_world ''team'' [] ''team_p''
     = (None, example_world\<lparr>items := [it \<leftarrow> items example_world.
                                          \<not> has_key ''team'' ''team_p'' it]\<rparr>)" by blast
  from f t s1 s2 n p a b c c' d show ?thesis by blast
qed

section \<open>Listing rows\<close>

text \<open>
  C9. On a datastore that answers and a table of well-formed items (each of which decodes
  to its row), \<^verbatim>\<open>ListRows\<close> returns exactly the rows of the given type whose label
  contains the label filter as a contiguous substring when that filter is not empty, and
  whose parent identifier equals the parent filter when that filter is not empty: the two
  conditions hold together, and an empty filter asks for nothing. The state is unchanged.
\<close>

theorem ListRows_filters:
  assumes "faults w = []" and "wf_table (items w)"
  shows
    "map Inr (table_rows (items w)) = map itemToRow (items w) \<and>
     ListRows w ty lf pf =
       (Inr [r \<leftarrow> table_rows (items w).
               RowType r = ty \<and> (lf \<noteq> [] \<longrightarrow> sublist lf (RowLabel r)) \<and>
               (pf \<noteq> [] \<longrightarrow> RowParentID r = pf)], w)"
  using ListRows_reliable[OF assms, of ty lf pf] table_rows_wf[OF assms(2)]
  by (simp add: row_selected_def)

theorem ListRows_filters_witness:
  "faults duplicate_world = [] \<and> wf_table (items duplicate_world) \<and>
   ListRows duplicate_world ''organization'' [] [] =
     (Inr [\<lparr>RowType = ''organization'', RowID = ''organization_a'', RowLabel = ''acme'',
            RowParentID = [], RowColumns = None\<rparr>,
           \<lparr>RowType = ''organization'', RowID = ''organization_b'', RowLabel = ''acme'',
            RowParentID = [], RowColumns = None\<rparr>], duplicate_world) \<and>
   ListRows duplicate_world ''team'' ''rod'' ''organization_a'' =
     (Inr [\<lparr>RowType = ''team'', RowID = ''team_p'', RowLabel = ''product'',
            RowParentID = ''organization_a'', RowColumns = Some []\<rparr>], duplicate_world) \<and>
   ListRows duplicate_world ''team'' ''rod'' ''organization_b'' = (Inr [], duplicate_world) \<and>
   ListRows duplicate_world ''environment'' ''product'' [] =
     (Inr [\<lparr>RowType = ''environment'', RowID = ''environment_p'', RowLabel = ''product'',
            RowParentID = ''organization_a'', RowColumns = Some []\<rparr>], duplicate_world) \<and>
   ListRows duplicate_world ''environment'' ''products'' [] = (Inr [], duplicate_world)"
proof -
  have f: "faults duplicate_world = []" by (simp add: example_defs)
  have wf: "wf_table (items duplicate_world)"
    by (simp add: example_defs wf_table_def wf_item_def)
  note T = ListRows_filters[OF f wf, THEN conjunct2]
  from T[of "''organization''" "[]" "[]"]
  have a: "ListRows duplicate_world ''organization'' [] [] =
     (Inr [\<lparr>RowType = ''organization'', RowID = ''organization_a'', RowLabel = ''acme'',
            RowParentID = [], RowColumns = None\<rparr>,
           \<lparr>RowType = ''organization'', RowID = ''organization_b'', RowLabel = ''acme'',
            RowParentID = [], RowColumns = None\<rparr>], duplicate_world)"
    by (simp add: duplicate_world_rows)
  from T[of "''team''" "''rod''" "''organization_a''"]
  have b: "ListRows duplicate_world ''team'' ''rod'' ''organization_a'' =
     (Inr [\<lparr>RowType = ''team'', RowID = ''team_p'', RowLabel = ''product'',
            RowParentID = ''organization_a'', RowColumns = Some []\<rparr>], duplicate_world)"
    by (simp add: duplicate_world_rows sublist_code)
  from T[of "''team''" "''rod''" "''organization_b''"]
  have c: "ListRows duplicate_world ''team'' ''rod'' ''organization_b''
      = (Inr [], duplicate_world)"
    by (simp add: duplicate_world_rows sublist_code)
  from T[of "''environment''" "''product''" "[]"]
  have d: "ListRows duplicate_world ''environment'' ''product'' [] =
     (Inr [\<lparr>RowType = ''environment'', RowID = ''environment_p'', RowLabel = ''product'',
            RowParentID = ''organization_a'', RowColumns = Some []\<rparr>], duplicate_world)"
    by (simp add: duplicate_world_rows sublist_code)
  from T[of "''environment''" "''products''" "[]"]
  have e: "ListRows duplicate_world ''environment'' ''products'' [] = (Inr [], duplicate_world)"
    by (simp add: duplicate_world_rows sublist_code)
  from f wf a b c d e show ?thesis by blast
qed


text \<open>
  C10. Whatever the state, an error of \<^verbatim>\<open>ListRows\<close> is never one that wraps
  \<open>ErrNotFoundRow\<close>; and on a datastore that answers and a table of well-formed items,
  when no row of the type satisfies the filters the result is the empty list and no error.
\<close>

theorem ListRows_empty_is_not_an_error:
  "(\<forall>e. fst (ListRows w ty lf pf) = Inl e \<longrightarrow> \<not> errors_Is e ErrNotFoundRow) \<and>
   (faults w = [] \<and> wf_table (items w) \<and>
    \<not> (\<exists>r\<in>set (table_rows (items w)).
          RowType r = ty \<and> (lf \<noteq> [] \<longrightarrow> sublist lf (RowLabel r)) \<and>
          (pf \<noteq> [] \<longrightarrow> RowParentID r = pf)) \<longrightarrow>
      ListRows w ty lf pf = (Inr [], w))"
proof (intro conjI allI impI)
  fix e assume "fst (ListRows w ty lf pf) = Inl e"
  from ListRows_error[OF this] show "\<not> errors_Is e ErrNotFoundRow" by auto
next
  assume a: "faults w = [] \<and> wf_table (items w) \<and>
    \<not> (\<exists>r\<in>set (table_rows (items w)).
          RowType r = ty \<and> (lf \<noteq> [] \<longrightarrow> sublist lf (RowLabel r)) \<and>
          (pf \<noteq> [] \<longrightarrow> RowParentID r = pf))"
  then have "[r \<leftarrow> table_rows (items w). row_selected ty lf pf r] = []"
    by (auto simp: filter_empty_conv row_selected_def)
  with a show "ListRows w ty lf pf = (Inr [], w)"
    by (simp add: ListRows_reliable)
qed


theorem ListRows_empty_is_not_an_error_witness:
  "fst (ListRows throttled_world ''team'' [] []) = Inl (ErrBackend ''ThrottlingException'') \<and>
   \<not> errors_Is (ErrBackend ''ThrottlingException'') ErrNotFoundRow \<and>
   faults example_world = [] \<and> wf_table (items example_world) \<and>
   \<not> (\<exists>r\<in>set (table_rows (items example_world)).
         RowType r = ''environment'' \<and> (''prod'' \<noteq> [] \<longrightarrow> sublist ''prod'' (RowLabel r)) \<and>
         (''organization_a'' \<noteq> [] \<longrightarrow> RowParentID r = ''organization_a'')) \<and>
   ListRows example_world ''environment'' ''prod'' ''organization_a'' = (Inr [], example_world)"
proof -
  have x: "fst (ListRows throttled_world ''team'' [] [])
      = Inl (ErrBackend ''ThrottlingException'')"
    by code_simp
  have f: "faults example_world = []" by (simp add: example_defs)
  have wf: "wf_table (items example_world)"
    by (simp add: example_defs wf_table_def wf_item_def)
  have n: "\<not> (\<exists>r\<in>set (table_rows (items example_world)).
         RowType r = ''environment'' \<and> (''prod'' \<noteq> [] \<longrightarrow> sublist ''prod'' (RowLabel r)) \<and>
         (''organization_a'' \<noteq> [] \<longrightarrow> RowParentID r = ''organization_a''))"
    by (simp add: example_world_rows)
  note A = ListRows_empty_is_not_an_error[of throttled_world "''team''" "[]" "[]"]
  note B = ListRows_empty_is_not_an_error[of example_world "''environment''" "''prod''"
      "''organization_a''"]
  from A x have a: "\<not> errors_Is (ErrBackend ''ThrottlingException'') ErrNotFoundRow"
    by blast
  from B f wf n have b: "ListRows example_world ''environment'' ''prod'' ''organization_a''
      = (Inr [], example_world)" by blast
  from x a f wf n b show ?thesis by blast
qed

section \<open>Updating the label and the parent\<close>

text \<open>
  C1. The claim is that the update of \<^verbatim>\<open>UpdateRow\<close> and of \<^verbatim>\<open>UpdateChild\<close> succeeds only
  on an existing item and never creates one. The condition both send is
  \<^verbatim>\<open>attribute_not_exists(#type) AND attribute_not_exists(#id)\<close>, the one of the two
  creations, where \<^verbatim>\<open>UpdateColumn\<close> and \<^verbatim>\<open>UpdateColumns\<close> send
  \<^verbatim>\<open>attribute_exists(#type) AND attribute_exists(#id)\<close>. On the example table:
  \<^verbatim>\<open>UpdateChild\<close> on the missing key (team, team_x) succeeds and leaves a new item under
  that key; on the existing row (team, team_p) both \<^verbatim>\<open>UpdateChild\<close> and \<^verbatim>\<open>UpdateRow\<close>
  fail their condition check and the label stays; \<^verbatim>\<open>UpdateColumns\<close> on the missing key
  fails, as the claim asks of an update.
\<close>

theorem UpdateChild_creates_missing_item:
  "\<not> row_exists (items example_world) ''team'' ''team_x'' \<and>
   fst (UpdateChild example_world ''team'' ''team_x'' ''marketing'' ''organization''
          ''organization_a'')
     = Inr \<lparr>RowType = ''team'', RowID = ''team_x'', RowLabel = ''marketing'',
            RowParentID = ''organization_a'', RowColumns = None\<rparr> \<and>
   items (snd (UpdateChild example_world ''team'' ''team_x'' ''marketing'' ''organization''
          ''organization_a''))
     = items example_world @
         [[(''type'', AvS ''team''), (''id'', AvS ''team_x''), (''label'', AvS ''marketing''),
           (''parent_id'', AvS ''organization_a'')]] \<and>
   row_exists (items example_world) ''team'' ''team_p'' \<and>
   fst (UpdateChild example_world ''team'' ''team_p'' ''marketing'' ''organization''
          ''organization_a'') = Inl ErrConditionalCheckFailed \<and>
   fst (UpdateRow example_world ''team'' ''team_p'' ''marketing'')
     = Inl ErrConditionalCheckFailed \<and>
   items (snd (UpdateRow example_world ''team'' ''team_p'' ''marketing''))
     = items example_world \<and>
   fst (UpdateColumns example_world ''team'' ''team_x'' None) = Some ErrConditionalCheckFailed"
proof -
  have a: "\<not> row_exists (items example_world) ''team'' ''team_x''" by code_simp
  have b: "fst (UpdateChild example_world ''team'' ''team_x'' ''marketing'' ''organization''
          ''organization_a'')
     = Inr \<lparr>RowType = ''team'', RowID = ''team_x'', RowLabel = ''marketing'',
            RowParentID = ''organization_a'', RowColumns = None\<rparr>" by code_simp
  have c: "items (snd (UpdateChild example_world ''team'' ''team_x'' ''marketing''
          ''organization'' ''organization_a''))
     = items example_world @
         [[(''type'', AvS ''team''), (''id'', AvS ''team_x''), (''label'', AvS ''marketing''),
           (''parent_id'', AvS ''organization_a'')]]" by code_simp
  have d: "row_exists (items example_world) ''team'' ''team_p''" by code_simp
  have e: "fst (UpdateChild example_world ''team'' ''team_p'' ''marketing'' ''organization''
          ''organization_a'') = Inl ErrConditionalCheckFailed" by code_simp
  have f: "fst (UpdateRow example_world ''team'' ''team_p'' ''marketing'')
     = Inl ErrConditionalCheckFailed" by code_simp
  have g: "items (snd (UpdateRow example_world ''team'' ''team_p'' ''marketing''))
     = items example_world" by code_simp
  have h: "fst (UpdateColumns example_world ''team'' ''team_x'' None)
     = Some ErrConditionalCheckFailed" by code_simp
  from a b c d e f g h show ?thesis by blast
qed


section \<open>Column values\<close>

text \<open>
  C5. Writing a row whose columns are strings and sets of strings with \<^verbatim>\<open>CreateChild\<close>
  and reading it back with \<^verbatim>\<open>GetRowByID\<close> (the datastore answering) gives the same
  columns. When some columns value is of any other kind, the write does not store an
  empty or absent value in its place: whatever the datastore answers, \<^verbatim>\<open>CreateChild\<close>
  returns an error and the table is what it was. The conversion gives the nil attribute
  value for such a column, and the put that holds it cannot be serialized.
\<close>

theorem columns_round_trip:
  "((\<forall>kv\<in>set cols. (\<exists>s. snd kv = IString s) \<or> (\<exists>ss. snd kv = IStringList ss)) \<and>
    CreateChild w ty l pt pid (Some cols) = (Inr r, w1) \<and> faults w1 = [] \<longrightarrow>
      (\<exists>r'. GetRowByID w1 ty (RowID r) = (Inr r', w1) \<and> RowColumns r' = Some cols)) \<and>
   ((k, v) \<in> set cols \<and> (\<forall>s. v \<noteq> IString s) \<and> (\<forall>ss. v \<noteq> IStringList ss) \<longrightarrow>
      (\<exists>e. fst (CreateChild w ty l pt pid (Some cols)) = Inl e) \<and>
      items (snd (CreateChild w ty l pt pid (Some cols))) = items w)"
proof -
  have A: "\<exists>r'. GetRowByID w1 ty (RowID r) = (Inr r', w1) \<and> RowColumns r' = Some cols"
    if a: "(\<forall>kv\<in>set cols. (\<exists>s. snd kv = IString s) \<or> (\<exists>ss. snd kv = IStringList ss)) \<and>
    CreateChild w ty l pt pid (Some cols) = (Inr r, w1) \<and> faults w1 = []"
  proof -
  let ?it = "[(''type'', AvS ty), (''id'', AvS (RowID r)), (''label'', AvS l),
             (''parent_id'', AvS pid), (''columns'', AvM (columnsToMap (Some cols)))]"
  from a CreateChild_success[of w ty l pt pid "Some cols" r w1]
  have n: "\<not> row_exists (items w) ty (RowID r)" and i: "items w1 = items w @ [?it]"
    by simp_all
  have "has_key ty (RowID r) ?it" by (simp add: has_key_def)
  from lookup_item_appended[OF n this] i
  have "lookup_item (items w1) ty (RowID r) = Some ?it" by simp
  with a show ?thesis
    by (simp add: GetRowByID_reliable itemToRow_child attrsToIfaces_columnsToMap)
  qed
  have B: "(\<exists>e. fst (CreateChild w ty l pt pid (Some cols)) = Inl e) \<and>
      items (snd (CreateChild w ty l pt pid (Some cols))) = items w"
    if b: "(k, v) \<in> set cols \<and> (\<forall>s. v \<noteq> IString s) \<and> (\<forall>ss. v \<noteq> IStringList ss)"
  proof -
  from b have u: "\<not> supported_columns (Some cols)"
    using unsupported_member[of k v cols] by blast
  obtain x w1 where c: "CreateChild w ty l pt pid (Some cols) = (x, w1)"
    by (cases "CreateChild w ty l pt pid (Some cols)")
  have "\<exists>e. x = Inl e"
  proof (cases x)
    case (Inl e)
    then show ?thesis by blast
  next
    case (Inr r)
    from CreateChild_success[OF c[unfolded Inr]] u show ?thesis by simp
  qed
  then obtain e where e: "x = Inl e" ..
  from CreateChild_failure[OF c[unfolded e]] c e show ?thesis by simp
  qed
  from A B show ?thesis by blast
qed

theorem columns_round_trip_witness:
  "CreateChild example_world ''team'' ''marketing'' ''organization'' ''organization_a''
       (Some [(''owner'', IString ''bob''), (''tags'', IStringList [''blue'', ''green''])])
     = (Inr \<lparr>RowType = ''team'', RowID = ''team_abcdefghij'', RowLabel = ''marketing'',
             RowParentID = ''organization_a'',
             RowColumns = Some [(''owner'', IString ''bob''),
                                (''tags'', IStringList [''blue'', ''green''])]\<rparr>,
        snd (CreateChild example_world ''team'' ''marketing'' ''organization''
               ''organization_a''
               (Some [(''owner'', IString ''bob''),
                      (''tags'', IStringList [''blue'', ''green''])]))) \<and>
   faults (snd (CreateChild example_world ''team'' ''marketing'' ''organization''
               ''organization_a''
               (Some [(''owner'', IString ''bob''),
                      (''tags'', IStringList [''blue'', ''green''])]))) = [] \<and>
   (\<exists>r'. GetRowByID
            (snd (CreateChild example_world ''team'' ''marketing'' ''organization''
               ''organization_a''
               (Some [(''owner'', IString ''bob''),
                      (''tags'', IStringList [''blue'', ''green''])])))
            ''team''
            (RowID \<lparr>RowType = ''team'', RowID = ''team_abcdefghij'', RowLabel = ''marketing'',
                    RowParentID = ''organization_a'',
                    RowColumns = Some [(''owner'', IString ''bob''),
                                       (''tags'', IStringList [''blue'', ''green''])]\<rparr>)
          = (Inr r',
             snd (CreateChild example_world ''team'' ''marketing'' ''organization''
               ''organization_a''
               (Some [(''owner'', IString ''bob''),
                      (''tags'', IStringList [''blue'', ''green''])]))) \<and>
        RowColumns r' = Some [(''owner'', IString ''bob''),
                              (''tags'', IStringList [''blue'', ''green''])]) \<and>
   (''enabled'', IBool True) \<in> set [(''owner'', IString ''bob''), (''enabled'', IBool True)] \<and>
   (\<forall>s. IBool True \<noteq> IString s) \<and> (\<forall>ss. IBool True \<noteq> IStringList ss) \<and>
   (\<exists>e. fst (CreateChild example_world ''team'' ''marketing'' ''organization''
               ''organization_a''
               (Some [(''owner'', IString ''bob''), (''enabled'', IBool True)])) = Inl e) \<and>
   items (snd (CreateChild example_world ''team'' ''marketing'' ''organization''
               ''organization_a''
               (Some [(''owner'', IString ''bob''), (''enabled'', IBool True)])))
     = items example_world"
proof -
  let ?cols = "[(''owner'', IString ''bob''), (''tags'', IStringList [''blue'', ''green''])]"
  let ?bad = "[(''owner'', IString ''bob''), (''enabled'', IBool True)]"
  let ?r = "\<lparr>RowType = ''team'', RowID = ''team_abcdefghij'', RowLabel = ''marketing'',
             RowParentID = ''organization_a'', RowColumns = Some ?cols\<rparr>"
  let ?w1 = "snd (CreateChild example_world ''team'' ''marketing'' ''organization''
               ''organization_a'' (Some ?cols))"
  have k: "\<forall>kv\<in>set ?cols. (\<exists>s. snd kv = IString s) \<or> (\<exists>ss. snd kv = IStringList ss)"
    by simp
  have "fst (CreateChild example_world ''team'' ''marketing'' ''organization''
               ''organization_a'' (Some ?cols)) = Inr ?r"
    by code_simp
  then have c: "CreateChild example_world ''team'' ''marketing'' ''organization''
               ''organization_a'' (Some ?cols) = (Inr ?r, ?w1)"
    by (simp add: prod_eq_iff)
  have f: "faults ?w1 = []" by code_simp
  have n: "(''enabled'', IBool True) \<in> set ?bad"
    "\<forall>s. IBool True \<noteq> IString s" "\<forall>ss. IBool True \<noteq> IStringList ss" by simp_all
  note T = columns_round_trip[of ?cols example_world "''team''" "''marketing''"
      "''organization''" "''organization_a''" ?r ?w1]
  note U = columns_round_trip[of ?bad example_world "''team''" "''marketing''"
      "''organization''" "''organization_a''" _ _ "''enabled''" "IBool True"]
  from T k c f have a: "\<exists>r'. GetRowByID ?w1 ''team'' (RowID ?r) = (Inr r', ?w1)
      \<and> RowColumns r' = Some ?cols" by blast
  from U n have b: "\<exists>e. fst (CreateChild example_world ''team'' ''marketing''
      ''organization'' ''organization_a'' (Some ?bad)) = Inl e"
    and b': "items (snd (CreateChild example_world ''team'' ''marketing''
      ''organization'' ''organization_a'' (Some ?bad))) = items example_world" by blast+
  from c f a n b b' show ?thesis by blast
qed

section \<open>Ensuring the table exists\<close>







end
